theory Spec2Isabelle
  imports Complex_Main "HOL-Library.Word"
begin

section \<open>Types and values\<close>

text \<open>
  Modelled from the spec: the package \<^verbatim>\<open>ir/types\<close> is imported by the sources but
  is not among them. The variants are those of the data model (pointer, array, struct,
  function, named, scalars). A named type carries its optional underlying definition:
  \<^verbatim>\<open>Def()\<close> returns the definition and whether it is resolved.
\<close>

datatype Type =
    VoidType
  | IntType nat
  | FloatType
  | LabelType
  | PointerType Type
  | ArrayType nat Type
  | StructType "Type list"
  | FuncType Type "Type list" bool
  | NamedType string "Type option"

text \<open>\<^verbatim>\<open>(*types.PointerType).Elem\<close>, read through the type assertion of the callers.\<close>

fun is_PointerType :: "Type \<Rightarrow> bool" where
  "is_PointerType (PointerType t) = True"
| "is_PointerType _ = False"

text \<open>
  An operand is a \<^verbatim>\<open>value.Value\<close>: the code reads its \<^verbatim>\<open>Type()\<close>, its
  \<^verbatim>\<open>Ident()\<close>, and whether its dynamic type is \<^verbatim>\<open>*constant.Int\<close>, whose
  \<^verbatim>\<open>Int64()\<close> is a signed 64-bit integer.
\<close>

datatype Value =
    ConstantInt Type "64 word"
  | OtherValue Type string

fun Value_Type :: "Value \<Rightarrow> Type" where
  "Value_Type (ConstantInt t x) = t"
| "Value_Type (OtherValue t ident) = t"

fun Int64 :: "64 word \<Rightarrow> int" where
  "Int64 x = sint x"

section \<open>Memory instructions\<close>

text \<open>
  A panic of the source is the \<open>Inl\<close> branch of the result. The first five are the
  explicit \<^verbatim>\<open>panic\<close> calls of \<^verbatim>\<open>inst_memory.go\<close>, in the spec's names; the
  last is the run-time panic of Go's slice indexing.
\<close>

datatype panic =
    ErrorInvalidSourceType Type
  | ErrorUnresolvedNamedType string
  | ErrorCannotIndexPointer
  | ErrorStructIndexMustBeConstant
  | ErrorUnsupportedIndexTarget Type
  | IndexOutOfRange int nat

type_synonym block_ref = nat

record InstLoad =
  load_parent :: "block_ref option"
  load_name :: string
  load_typ :: Type
  load_src :: Value

record InstGetElementPtr =
  gep_parent :: "block_ref option"
  gep_name :: string
  gep_typ :: Type
  gep_elem :: Type
  gep_src :: Value
  gep_indices :: "Value list"

subsection \<open>load\<close>

fun NewLoad :: "Value \<Rightarrow> panic + InstLoad" where
  "NewLoad src =
     (case Value_Type src of
        PointerType elem \<Rightarrow>
          Inr \<lparr>load_parent = None, load_name = [], load_typ = elem, load_src = src\<rparr>
      | t \<Rightarrow> Inl (ErrorInvalidSourceType t))"

definition InstLoad_Type :: "InstLoad \<Rightarrow> Type" where
  "InstLoad_Type inst = load_typ inst"

definition InstLoad_SetName :: "InstLoad \<Rightarrow> string \<Rightarrow> InstLoad" where
  "InstLoad_SetName inst name = inst\<lparr>load_name := name\<rparr>"

definition InstLoad_SetParent :: "InstLoad \<Rightarrow> block_ref option \<Rightarrow> InstLoad" where
  "InstLoad_SetParent inst parent = inst\<lparr>load_parent := parent\<rparr>"

definition InstLoad_SetSrc :: "InstLoad \<Rightarrow> Value \<Rightarrow> InstLoad" where
  "InstLoad_SetSrc inst src = inst\<lparr>load_src := src\<rparr>"

subsection \<open>getelementptr\<close>

text \<open>
  The body of the loop of \<^verbatim>\<open>NewGetElementPtr\<close> for an index other than the 0th:
  a named type is replaced by its definition (once), then the switch on the type.
  \<^verbatim>\<open>t.Fields()[idx.Int64()]\<close> panics when the index is negative or not below the
  number of fields.
\<close>

fun resolve_named :: "Type \<Rightarrow> panic + Type" where
  "resolve_named (NamedType name def) =
     (case def of None \<Rightarrow> Inl (ErrorUnresolvedNamedType name) | Some d \<Rightarrow> Inr d)"
| "resolve_named e = Inr e"

fun index_fields :: "Type list \<Rightarrow> int \<Rightarrow> panic + Type" where
  "index_fields fs i =
     (if i < 0 \<or> int (length fs) \<le> i then Inl (IndexOutOfRange i (length fs))
      else Inr (fs ! nat i))"

fun index_elem :: "Type \<Rightarrow> Value \<Rightarrow> panic + Type" where
  "index_elem (PointerType t) index = Inl ErrorCannotIndexPointer"
| "index_elem (ArrayType n t) index = Inr t"
| "index_elem (StructType fs) (ConstantInt ty x) = index_fields fs (Int64 x)"
| "index_elem (StructType fs) (OtherValue ty ident) = Inl ErrorStructIndexMustBeConstant"
| "index_elem e index = Inl (ErrorUnsupportedIndexTarget e)"

fun gep_step :: "Type \<Rightarrow> Value \<Rightarrow> panic + Type" where
  "gep_step e index =
     (case resolve_named e of Inl p \<Rightarrow> Inl p | Inr e' \<Rightarrow> index_elem e' index)"

text \<open>
  The loop \<^verbatim>\<open>for i, index := range indices\<close>, with its counter: the 0th index
  is skipped by \<^verbatim>\<open>continue\<close>.
\<close>

fun gep_loop :: "nat \<Rightarrow> Type \<Rightarrow> Value list \<Rightarrow> panic + Type" where
  "gep_loop i e [] = Inr e"
| "gep_loop i e (index # indices) =
     (if i = 0 then gep_loop (Suc i) e indices
      else case gep_step e index of
             Inl p \<Rightarrow> Inl p
           | Inr e' \<Rightarrow> gep_loop (Suc i) e' indices)"

fun NewGetElementPtr :: "Value \<Rightarrow> Value list \<Rightarrow> panic + InstGetElementPtr" where
  "NewGetElementPtr src indices =
     (case Value_Type src of
        PointerType elem \<Rightarrow>
          (case gep_loop 0 elem indices of
             Inl p \<Rightarrow> Inl p
           | Inr e \<Rightarrow>
               Inr \<lparr>gep_parent = None, gep_name = [], gep_typ = PointerType e,
                    gep_elem = elem, gep_src = src, gep_indices = indices\<rparr>)
      | t \<Rightarrow> Inl (ErrorInvalidSourceType t))"

definition InstGetElementPtr_Type :: "InstGetElementPtr \<Rightarrow> Type" where
  "InstGetElementPtr_Type inst = gep_typ inst"

definition InstGetElementPtr_SetName :: "InstGetElementPtr \<Rightarrow> string \<Rightarrow> InstGetElementPtr" where
  "InstGetElementPtr_SetName inst name = inst\<lparr>gep_name := name\<rparr>"

definition InstGetElementPtr_SetParent ::
    "InstGetElementPtr \<Rightarrow> block_ref option \<Rightarrow> InstGetElementPtr" where
  "InstGetElementPtr_SetParent inst parent = inst\<lparr>gep_parent := parent\<rparr>"

definition InstGetElementPtr_SetSrc :: "InstGetElementPtr \<Rightarrow> Value \<Rightarrow> InstGetElementPtr" where
  "InstGetElementPtr_SetSrc inst src = inst\<lparr>gep_src := src\<rparr>"

definition InstGetElementPtr_SetIndices ::
    "InstGetElementPtr \<Rightarrow> Value list \<Rightarrow> InstGetElementPtr" where
  "InstGetElementPtr_SetIndices inst indices = inst\<lparr>gep_indices := indices\<rparr>"

subsection \<open>The address computation as the spec words it\<close>

text \<open>
  The spec's algorithm (section 4.3), written from its words to be compared with the
  loop above: start with \<open>current = T0\<close>; the first index is skipped; for every
  subsequent index, (1) a named type is resolved, an unresolved one is fatal; (2) a
  pointer fails; (3) an array gives its element type; (4) a struct needs a constant
  index and gives the field at that position, an out-of-range position being an
  index-out-of-range condition; (5) any other kind fails.
\<close>

definition spec_step :: "Type \<Rightarrow> Value \<Rightarrow> panic + Type" where
  "spec_step current index =
     (case (case current of
              NamedType name None \<Rightarrow> Inl (ErrorUnresolvedNamedType name)
            | NamedType name (Some d) \<Rightarrow> Inr d
            | _ \<Rightarrow> Inr current) of
        Inl p \<Rightarrow> Inl p
      | Inr cur \<Rightarrow>
          (case cur of
             PointerType t \<Rightarrow> Inl ErrorCannotIndexPointer
           | ArrayType n t \<Rightarrow> Inr t
           | StructType fs \<Rightarrow>
               (case index of
                  ConstantInt ty x \<Rightarrow>
                    (if 0 \<le> sint x \<and> sint x < int (length fs) then Inr (fs ! nat (sint x))
                     else Inl (IndexOutOfRange (sint x) (length fs)))
                | OtherValue ty ident \<Rightarrow> Inl ErrorStructIndexMustBeConstant)
           | _ \<Rightarrow> Inl (ErrorUnsupportedIndexTarget cur)))"

primrec spec_walk :: "Type \<Rightarrow> Value list \<Rightarrow> panic + Type" where
  "spec_walk current [] = Inr current"
| "spec_walk current (index # rest) =
     (case spec_step current index of
        Inl p \<Rightarrow> Inl p
      | Inr next \<Rightarrow> spec_walk next rest)"

definition spec_reached :: "Type \<Rightarrow> Value list \<Rightarrow> panic + Type" where
  "spec_reached T0 indices = spec_walk T0 (drop 1 indices)"

subsection \<open>Dynamic kinds\<close>

fun is_ArrayType :: "Type \<Rightarrow> bool" where
  "is_ArrayType (ArrayType n t) = True"
| "is_ArrayType _ = False"

fun is_StructType :: "Type \<Rightarrow> bool" where
  "is_StructType (StructType fs) = True"
| "is_StructType _ = False"

fun is_ConstantInt :: "Value \<Rightarrow> bool" where
  "is_ConstantInt (ConstantInt ty x) = True"
| "is_ConstantInt _ = False"

subsection \<open>Concrete operands\<close>

definition i8 :: Type where "i8 = IntType 8"
definition i32 :: Type where "i32 = IntType 32"

definition struct_i32_arr4i8 :: Type where
  "struct_i32_arr4i8 = StructType [i32, ArrayType 4 i8]"

definition arr10i32 :: Type where
  "arr10i32 = ArrayType 10 i32"

definition const_i32 :: "64 word \<Rightarrow> Value" where
  "const_i32 x = ConstantInt i32 x"

definition ptr_operand :: "Type \<Rightarrow> Value" where
  "ptr_operand t = OtherValue (PointerType t) ''%p''"

definition local_operand :: "Type \<Rightarrow> Value" where
  "local_operand t = OtherValue t ''%x''"

definition struct_with_ptr :: Type where
  "struct_with_ptr = StructType [i32, PointerType i8]"

definition opaque_named :: Type where
  "opaque_named = NamedType ''opaque'' None"

section \<open>Functions and basic blocks\<close>

subsection \<open>alloca and store\<close>

record InstAlloca =
  alloca_parent :: "block_ref option"
  alloca_name :: string
  alloca_typ :: Type
  alloca_elem :: Type
  alloca_nelems :: "Value option"

record InstStore =
  store_parent :: "block_ref option"
  store_src :: Value
  store_dst :: Value

definition NewAlloca :: "Type \<Rightarrow> InstAlloca" where
  "NewAlloca elem =
     \<lparr>alloca_parent = None, alloca_name = [], alloca_typ = PointerType elem,
      alloca_elem = elem, alloca_nelems = None\<rparr>"

definition NewStore :: "Value \<Rightarrow> Value \<Rightarrow> InstStore" where
  "NewStore src dst = \<lparr>store_parent = None, store_src = src, store_dst = dst\<rparr>"

subsection \<open>Basic blocks\<close>

text \<open>
  Modelled from the spec: the basic block (\<^verbatim>\<open>BasicBlock\<close>, with \<^verbatim>\<open>SetParent\<close>
  and \<^verbatim>\<open>assignIDs\<close>) is used by the sources but is not among them. A block owns
  an ordered sequence of instructions, has a name (empty when unnamed) and a
  back-reference to its parent function. An instruction is one of the four variants;
  a store produces no result and has no name.
\<close>

datatype Instruction =
    Alloca InstAlloca
  | Load InstLoad
  | Store InstStore
  | GetElementPtr InstGetElementPtr

type_synonym func_ref = nat

record BasicBlock =
  block_parent :: "func_ref option"
  block_name :: string
  block_insts :: "Instruction list"

definition BasicBlock_SetParent :: "BasicBlock \<Rightarrow> func_ref \<Rightarrow> BasicBlock" where
  "BasicBlock_SetParent block parent = block\<lparr>block_parent := Some parent\<rparr>"

text \<open>The name of a result-producing instruction; \<open>None\<close> for a store.\<close>

fun Instruction_Name :: "Instruction \<Rightarrow> string option" where
  "Instruction_Name (Alloca inst) = Some (alloca_name inst)"
| "Instruction_Name (Load inst) = Some (load_name inst)"
| "Instruction_Name (Store inst) = None"
| "Instruction_Name (GetElementPtr inst) = Some (gep_name inst)"

fun Instruction_SetName :: "Instruction \<Rightarrow> string \<Rightarrow> Instruction" where
  "Instruction_SetName (Alloca inst) name = Alloca (inst\<lparr>alloca_name := name\<rparr>)"
| "Instruction_SetName (Load inst) name = Load (InstLoad_SetName inst name)"
| "Instruction_SetName (Store inst) name = Store inst"
| "Instruction_SetName (GetElementPtr inst) name =
     GetElementPtr (InstGetElementPtr_SetName inst name)"

subsection \<open>Functions\<close>

text \<open>
  Modelled from the spec: the signature \<^verbatim>\<open>*types.Func\<close> of a function (ordered
  parameter types, result type, variadic flag).
\<close>

record Func =
  sig_result :: Type
  sig_params :: "Type list"
  sig_variadic :: bool

text \<open>
  \<^verbatim>\<open>blocks\<close> is a Go slice: \<open>None\<close> is the nil slice of a declaration.
  \<^verbatim>\<open>localID\<close> is a Go \<^verbatim>\<open>int\<close>, taken as 64 bits wide: \<^verbatim>\<open>localID++\<close> wraps
  around, and \<^verbatim>\<open>strconv.Itoa\<close> prints the signed value.
\<close>

record Function =
  func_name :: string
  func_sig :: Func
  func_blocks :: "BasicBlock list option"
  func_localID :: "64 word"

definition NewFunction :: "string \<Rightarrow> Func \<Rightarrow> Function" where
  "NewFunction name sig =
     \<lparr>func_name = name, func_sig = sig, func_blocks = None, func_localID = 0\<rparr>"

definition Function_Name :: "Function \<Rightarrow> string" where
  "Function_Name f = func_name f"

definition Function_Sig :: "Function \<Rightarrow> Func" where
  "Function_Sig f = func_sig f"

definition Function_Blocks :: "Function \<Rightarrow> BasicBlock list option" where
  "Function_Blocks f = func_blocks f"

text \<open>\<^verbatim>\<open>strconv.Itoa\<close> of Go's standard library: the decimal text of an integer.\<close>

definition digit :: "nat \<Rightarrow> char" where
  "digit d = ''0123456789'' ! d"

fun digits :: "nat \<Rightarrow> string" where
  "digits n =
     (if n < 10 then [digit n]
      else digits (n div 10) @ [digit (n mod 10)])"

definition Itoa :: "int \<Rightarrow> string" where
  "Itoa i = (if i < 0 then CHR ''-'' # digits (nat (- i)) else digits (nat i))"

definition nextID :: "Function \<Rightarrow> string \<times> Function" where
  "nextID f =
     (let ident = Itoa (sint (func_localID f))
      in (ident, f\<lparr>func_localID := func_localID f + 1\<rparr>))"

text \<open>
  Modelled from the spec: \<^verbatim>\<open>(*BasicBlock).assignIDs\<close>, the pass over one block:
  the block first, then its instructions in order; an entity that carries a name is
  skipped; every unnamed block and unnamed result-producing instruction gets the next
  integer of the function's counter. The spec gives this pass no failure.
\<close>

definition assign_inst :: "Instruction \<Rightarrow> Function \<Rightarrow> Instruction \<times> Function" where
  "assign_inst inst f =
     (case Instruction_Name inst of
        None \<Rightarrow> (inst, f)
      | Some name \<Rightarrow>
          (if name = [] then (case nextID f of (ident, g) \<Rightarrow> (Instruction_SetName inst ident, g))
           else (inst, f)))"

fun assign_insts :: "Instruction list \<Rightarrow> Function \<Rightarrow> Instruction list \<times> Function" where
  "assign_insts [] f = ([], f)"
| "assign_insts (inst # insts) f =
     (case assign_inst inst f of
        (inst', f') \<Rightarrow> (case assign_insts insts f' of (insts', f'') \<Rightarrow> (inst' # insts', f'')))"

definition assignIDs :: "BasicBlock \<Rightarrow> Function \<Rightarrow> 'e option \<times> BasicBlock \<times> Function" where
  "assignIDs block f =
     (case (if block_name block = []
            then (case nextID f of (ident, g) \<Rightarrow> (block\<lparr>block_name := ident\<rparr>, g))
            else (block, f)) of
        (block', f') \<Rightarrow>
          (case assign_insts (block_insts block') f' of
             (insts', f'') \<Rightarrow> (None, block'\<lparr>block_insts := insts'\<rparr>, f'')))"

text \<open>
  \<open>AssignIDs\<close>. The pass over one block (\<^verbatim>\<open>block.assignIDs\<close>) is the parameter
  \<open>ba\<close>: it returns its error (\<open>None\<close> for nil), the block as it left it, and the
  function, whose counter it reaches through the block's parent. \<open>Err\<close> is
  \<^verbatim>\<open>errutil.Err\<close> of the package \<^verbatim>\<open>github.com/mewkiz/pkg/errutil\<close>, which is not
  part of the repository. The blocks are pointers in the source and are changed in
  place; here the loop returns them and \<open>AssignIDs\<close> stores them back. The blocks
  of a list, and the instructions of a block, are taken to be distinct objects.
\<close>

fun AssignIDs_loop ::
    "('e \<Rightarrow> 'e) \<Rightarrow> (BasicBlock \<Rightarrow> Function \<Rightarrow> 'e option \<times> BasicBlock \<times> Function) \<Rightarrow>
     BasicBlock list \<Rightarrow> Function \<Rightarrow> 'e option \<times> BasicBlock list \<times> Function" where
  "AssignIDs_loop Err ba [] f = (None, [], f)"
| "AssignIDs_loop Err ba (block # blocks) f =
     (case ba block f of
        (Some err, block', f') \<Rightarrow> (Some (Err err), block' # blocks, f')
      | (None, block', f') \<Rightarrow>
          (case AssignIDs_loop Err ba blocks f' of
             (r, blocks', f'') \<Rightarrow> (r, block' # blocks', f'')))"

definition AssignIDs ::
    "('e \<Rightarrow> 'e) \<Rightarrow> (BasicBlock \<Rightarrow> Function \<Rightarrow> 'e option \<times> BasicBlock \<times> Function) \<Rightarrow>
     Function \<Rightarrow> 'e option \<times> Function" where
  "AssignIDs Err ba f =
     (case func_blocks f of
        None \<Rightarrow> (None, f)
      | Some blocks \<Rightarrow>
          (case AssignIDs_loop Err ba blocks f of
             (r, blocks', f') \<Rightarrow> (r, f'\<lparr>func_blocks := Some blocks'\<rparr>)))"

text \<open>
  \<open>SetBlocks\<close> and \<open>AppendBlock\<close>; \<open>this\<close> is the address of the receiver, which
  \<^verbatim>\<open>block.SetParent(f)\<close> stores in the block.
\<close>

definition SetBlocks ::
    "('e \<Rightarrow> 'e) \<Rightarrow> (BasicBlock \<Rightarrow> Function \<Rightarrow> 'e option \<times> BasicBlock \<times> Function) \<Rightarrow>
     func_ref \<Rightarrow> Function \<Rightarrow> BasicBlock list option \<Rightarrow> 'e option \<times> Function" where
  "SetBlocks Err ba this f blocks =
     (let blocks' = map_option (map (\<lambda>block. BasicBlock_SetParent block this)) blocks;
          f1 = f\<lparr>func_blocks := blocks'\<rparr>
      in case AssignIDs Err ba f1 of
           (Some err, f2) \<Rightarrow> (Some (Err err), f2)
         | (None, f2) \<Rightarrow> (None, f2))"


subsection \<open>Printing a function\<close>

text \<open>
  \<open>String\<close>. The printers of the packages that are not among the sources are
  parameters: \<open>tS\<close> is \<^verbatim>\<open>String()\<close> of the result type, \<open>pS\<close> is
  \<^verbatim>\<open>String()\<close> of a parameter, \<open>encG\<close> is \<^verbatim>\<open>enc.Global\<close>, \<open>bS\<close> is
  \<^verbatim>\<open>String()\<close> of a basic block. A buffer is the text written so far.
\<close>

definition Function_ValueString :: "(string \<Rightarrow> string) \<Rightarrow> Function \<Rightarrow> string" where
  "Function_ValueString encG f = encG (Function_Name f)"

fun write_params :: "(Type \<Rightarrow> string) \<Rightarrow> nat \<Rightarrow> Type list \<Rightarrow> string \<Rightarrow> string" where
  "write_params pS i [] buf = buf"
| "write_params pS i (param # params) buf =
     write_params pS (Suc i) params ((if i > 0 then buf @ '', '' else buf) @ pS param)"

fun write_blocks :: "(BasicBlock \<Rightarrow> string) \<Rightarrow> BasicBlock list \<Rightarrow> string \<Rightarrow> string" where
  "write_blocks bS [] buf = buf"
| "write_blocks bS (block # blocks) buf =
     write_blocks bS blocks (buf @ bS block @ [CHR 0x0A])"

definition Function_String ::
    "(Type \<Rightarrow> string) \<Rightarrow> (Type \<Rightarrow> string) \<Rightarrow> (string \<Rightarrow> string) \<Rightarrow>
     (BasicBlock \<Rightarrow> string) \<Rightarrow> Function \<Rightarrow> string" where
  "Function_String tS pS encG bS f =
     (let params = sig_params (Function_Sig f);
          paramsBuf = write_params pS 0 params [];
          paramsBuf' =
            (if sig_variadic (Function_Sig f)
             then (if length params > 0 then paramsBuf @ '', '' else paramsBuf) @ ''...''
             else paramsBuf);
          sig = tS (sig_result (Function_Sig f)) @ '' '' @ Function_ValueString encG f @
                ''('' @ paramsBuf' @ '')''
      in case func_blocks f of
           None \<Rightarrow> ''declare '' @ sig
         | Some blocks \<Rightarrow>
             write_blocks bS blocks (''define '' @ sig @ '' {'' @ [CHR 0x0A]) @ ''}'')"

text \<open>
  The text of the parameter list in the spec's words: the parameter types joined by
  \<open>", "\<close>, then the marker \<open>...\<close> exactly for a variadic signature, after a comma
  exactly when there is a fixed parameter.
\<close>

fun comma_joined :: "string list \<Rightarrow> string" where
  "comma_joined [] = []"
| "comma_joined [x] = x"
| "comma_joined (x # y # ys) = x @ '', '' @ comma_joined (y # ys)"

definition variadic_marker :: "Func \<Rightarrow> string" where
  "variadic_marker sig =
     (if sig_variadic sig then (if sig_params sig = [] then ''...'' else '', ...'') else [])"

definition spec_signature ::
    "(Type \<Rightarrow> string) \<Rightarrow> (Type \<Rightarrow> string) \<Rightarrow> (string \<Rightarrow> string) \<Rightarrow> Function \<Rightarrow> string" where
  "spec_signature tS pS encG f =
     tS (sig_result (func_sig f)) @ '' '' @ encG (func_name f) @ ''('' @
     comma_joined (map pS (sig_params (func_sig f))) @ variadic_marker (func_sig f) @ '')''"

text \<open>Sample printers and the declaration of \<open>printf\<close>, for a concrete rendering.\<close>

fun sample_type_String :: "Type \<Rightarrow> string" where
  "sample_type_String (IntType n) = CHR ''i'' # digits n"
| "sample_type_String (PointerType t) = sample_type_String t @ ''*''"
| "sample_type_String VoidType = ''void''"
| "sample_type_String _ = ''?''"

definition sample_Global :: "string \<Rightarrow> string" where
  "sample_Global name = CHR ''@'' # name"

definition sample_block_String :: "BasicBlock \<Rightarrow> string" where
  "sample_block_String block = block_name block @ '':''"

definition printf_decl :: Function where
  "printf_decl =
     NewFunction ''printf''
       \<lparr>sig_result = i32, sig_params = [PointerType i8], sig_variadic = True\<rparr>"

subsection \<open>Concrete functions, blocks and errors\<close>

text \<open>
  Instances of the two parameters of \<open>AssignIDs\<close>, for concrete inputs only. Errors
  are plain errors or errors annotated with a position (\<^verbatim>\<open>*errutil.ErrInfo\<close>, the
  position left out); \<^verbatim>\<open>errutil.Err\<close> annotates an error and returns an annotated
  error as it is. \<open>reject_block name e\<close> is a pass that fails with the error \<open>e\<close> on
  the block called \<open>name\<close>, leaving it untouched, and is the pass of the spec on every
  other block: neither the sources nor the spec say when the pass over a block fails, so
  it describes no code of the repository and only shows that a failing pass exists.
\<close>

datatype error = ErrorString string | ErrInfo error

definition errutil_Err :: "error \<Rightarrow> error" where
  "errutil_Err e = (case e of ErrInfo e' \<Rightarrow> e | ErrorString msg \<Rightarrow> ErrInfo e)"





definition void_sig :: Func where
  "void_sig = \<lparr>sig_result = VoidType, sig_params = [], sig_variadic = False\<rparr>"



subsection \<open>Names in pass order\<close>

text \<open>
  The names a pass over a function body meets, in its order: for every block its own
  name, then the names of its result-producing instructions; an empty name is an
  unnamed entity. \<open>clear_names\<close> erases every name, so that two bodies that
  agree after it differ in names only. \<open>slice_elems\<close> reads a slice that may be nil.
\<close>

definition inst_names :: "Instruction list \<Rightarrow> string list" where
  "inst_names insts = List.map_filter Instruction_Name insts"

definition entity_names :: "BasicBlock \<Rightarrow> string list" where
  "entity_names block = block_name block # inst_names (block_insts block)"

definition body_names :: "BasicBlock list \<Rightarrow> string list" where
  "body_names blocks = concat (map entity_names blocks)"

definition count_unnamed :: "string list \<Rightarrow> nat" where
  "count_unnamed names = length (filter (\<lambda>n. n = []) names)"

definition clear_names :: "BasicBlock \<Rightarrow> BasicBlock" where
  "clear_names block =
     block\<lparr>block_name := [],
           block_insts := map (\<lambda>inst. Instruction_SetName inst []) (block_insts block)\<rparr>"


text \<open>
  The numbering in the spec's words: in pass order, a named entity keeps its name and
  every unnamed one gets the next integer of the counter. \<open>numbered_from_zero\<close> says
  the same of two lists of names without the counter: same length, the names that were
  there are kept, and the names given to the unnamed entities are \<open>0, 1, 2, ...\<close>
  in pass order.
\<close>

fun number :: "64 word \<Rightarrow> string list \<Rightarrow> string list" where
  "number c [] = []"
| "number c (n # ns) =
     (if n = [] then Itoa (sint c) # number (c + 1) ns else n # number c ns)"

definition numbered_from_zero :: "string list \<Rightarrow> string list \<Rightarrow> bool" where
  "numbered_from_zero old new \<longleftrightarrow>
     length new = length old \<and>
     (\<forall>j<length old. old ! j \<noteq> [] \<longrightarrow> new ! j = old ! j) \<and>
     map snd (filter (\<lambda>(a, b). a = []) (zip old new)) =
       map (\<lambda>i. Itoa (int i)) [0..<count_unnamed old]"


text \<open>
  The body of the spec's example: an unnamed block with an unnamed load, a named
  alloca, a store and an unnamed alloca, followed by the block \<open>entry\<close>. And a
  function whose counter has reached the largest \<^verbatim>\<open>int\<close>.
\<close>

definition sample_body :: "BasicBlock list" where
  "sample_body =
     [\<lparr>block_parent = None, block_name = [],
       block_insts =
         [Load \<lparr>load_parent = None, load_name = [], load_typ = i32, load_src = ptr_operand i32\<rparr>,
          Alloca ((NewAlloca i8)\<lparr>alloca_name := ''named''\<rparr>),
          Store (NewStore (const_i32 1) (ptr_operand i32)),
          Alloca (NewAlloca i32)]\<rparr>,
      \<lparr>block_parent = None, block_name = ''entry'', block_insts = []\<rparr>]"


section \<open>The half-precision codec\<close>

text \<open>
  Modelled from the spec: the package \<^verbatim>\<open>internal/floats\<close> (\<^verbatim>\<open>NewFloat16FromBits\<close>,
  \<^verbatim>\<open>Float32\<close>, \<^verbatim>\<open>Float64\<close>) is not among the sources, only its test is. The
  spec's algorithm: extract the sign, exponent and mantissa fields of the 16-bit
  pattern; re-bias the exponent for the target width; shift the mantissa left into the
  target's mantissa field; reassemble in the target's bit layout; a subnormal is
  promoted to the target's normal range, and zero, infinity and NaN keep their class.

  A format has \<open>eb\<close> exponent bits and \<open>mb\<close> mantissa bits; a pattern is read as a
  natural number below \<open>2 ^ (1 + eb + mb)\<close>. The value of a finite pattern is a real
  number: \<open>\<plusminus> 2 * m / 2 ^ (bias + mb)\<close> for exponent field 0 and
  \<open>\<plusminus> (2 ^ mb + m) * 2 ^ e / 2 ^ (bias + mb)\<close> otherwise.
\<close>

definition ieee_sign :: "nat \<Rightarrow> nat \<Rightarrow> nat \<Rightarrow> nat" where
  "ieee_sign eb mb p = p div 2 ^ (eb + mb)"

definition ieee_exp :: "nat \<Rightarrow> nat \<Rightarrow> nat \<Rightarrow> nat" where
  "ieee_exp eb mb p = (p div 2 ^ mb) mod 2 ^ eb"

definition ieee_mant :: "nat \<Rightarrow> nat \<Rightarrow> nat \<Rightarrow> nat" where
  "ieee_mant eb mb p = p mod 2 ^ mb"

definition ieee_bias :: "nat \<Rightarrow> nat" where
  "ieee_bias eb = 2 ^ (eb - 1) - 1"

definition ieee_pack :: "nat \<Rightarrow> nat \<Rightarrow> nat \<Rightarrow> nat \<Rightarrow> nat \<Rightarrow> nat" where
  "ieee_pack eb mb s e m = s * 2 ^ (eb + mb) + e * 2 ^ mb + m"

definition ieee_finite :: "nat \<Rightarrow> nat \<Rightarrow> nat \<Rightarrow> bool" where
  "ieee_finite eb mb p \<longleftrightarrow> ieee_exp eb mb p \<noteq> 2 ^ eb - 1"

definition ieee_value :: "nat \<Rightarrow> nat \<Rightarrow> nat \<Rightarrow> real" where
  "ieee_value eb mb p =
     (if ieee_sign eb mb p = 0 then 1 else - 1) *
     (if ieee_exp eb mb p = 0 then real (2 * ieee_mant eb mb p)
      else real ((2 ^ mb + ieee_mant eb mb p) * 2 ^ ieee_exp eb mb p)) /
     real (2 ^ (ieee_bias eb + mb))"

text \<open>
  Promotion of a half-precision subnormal: the mantissa is shifted left until its bit
  10 is set, counting the shifts.
\<close>

function normalize_mant :: "nat \<Rightarrow> nat \<Rightarrow> nat \<times> nat" where
  "normalize_mant m k = (if m = 0 \<or> 1024 \<le> m then (m, k) else normalize_mant (2 * m) (Suc k))"
  by pat_completeness auto
termination
  by (relation "measure (\<lambda>(m, k). 1024 - m)") auto

definition widen :: "nat \<Rightarrow> nat \<Rightarrow> nat \<Rightarrow> nat" where
  "widen eb mb h =
     (let s = ieee_sign 5 10 h; e = ieee_exp 5 10 h; m = ieee_mant 5 10 h
      in if e = 31 then ieee_pack eb mb s (2 ^ eb - 1) (m * 2 ^ (mb - 10))
         else if e = 0 then
           (if m = 0 then ieee_pack eb mb s 0 0
            else case normalize_mant m 0 of
                   (m', k) \<Rightarrow>
                     ieee_pack eb mb s (ieee_bias eb - 14 - k) ((m' mod 1024) * 2 ^ (mb - 10)))
         else ieee_pack eb mb s (e + ieee_bias eb - 15) (m * 2 ^ (mb - 10)))"

type_synonym Float16 = "16 word"

definition NewFloat16FromBits :: "16 word \<Rightarrow> Float16" where
  "NewFloat16FromBits bits = bits"

definition Float32 :: "16 word \<Rightarrow> 32 word" where
  "Float32 h = of_nat (widen 8 23 (unat h))"

definition Float64 :: "16 word \<Rightarrow> 64 word" where
  "Float64 h = of_nat (widen 11 52 (unat h))"

text \<open>What a pattern of each width denotes.\<close>

definition float16_finite :: "Float16 \<Rightarrow> bool" where
  "float16_finite h \<longleftrightarrow> ieee_finite 5 10 (unat h)"

definition float16_value :: "Float16 \<Rightarrow> real" where
  "float16_value h = ieee_value 5 10 (unat h)"

definition float32_finite :: "32 word \<Rightarrow> bool" where
  "float32_finite w \<longleftrightarrow> ieee_finite 8 23 (unat w)"

definition float32_value :: "32 word \<Rightarrow> real" where
  "float32_value w = ieee_value 8 23 (unat w)"

definition float64_finite :: "64 word \<Rightarrow> bool" where
  "float64_finite w \<longleftrightarrow> ieee_finite 11 52 (unat w)"

definition float64_value :: "64 word \<Rightarrow> real" where
  "float64_value w = ieee_value 11 52 (unat w)"

section \<open>Properties of the memory instructions\<close>

lemma resolve_named_cases:
  "resolve_named e =
     (case e of NamedType name None \<Rightarrow> Inl (ErrorUnresolvedNamedType name)
      | NamedType name (Some d) \<Rightarrow> Inr d | _ \<Rightarrow> Inr e)"
  by (cases e) (auto split: option.splits)

lemma gep_step_spec: "gep_step e index = spec_step e index"
proof (cases "resolve_named e")
  case (Inl p)
  then show ?thesis
    by (cases e) (auto simp: spec_step_def split: option.splits)
next
  case (Inr cur)
  have r: "(case e of NamedType name None \<Rightarrow> Inl (ErrorUnresolvedNamedType name)
      | NamedType name (Some d) \<Rightarrow> Inr d | _ \<Rightarrow> Inr e) = Inr cur"
    using Inr by (simp add: resolve_named_cases)
  show ?thesis
    unfolding spec_step_def r
    using Inr by (cases cur; cases index) auto
qed

lemma gep_loop_Suc: "gep_loop (Suc i) e indices = spec_walk e indices"
  by (induction indices arbitrary: i e)
     (auto simp: gep_step_spec simp del: gep_step.simps split: sum.splits)

lemma gep_loop_0: "gep_loop 0 e indices = spec_walk e (drop 1 indices)"
  by (cases indices) (simp_all add: gep_loop_Suc)

lemma gep_loop_append:
  "gep_loop (Suc i) e (pre @ post) =
     (case gep_loop (Suc i) e pre of
        Inl p \<Rightarrow> Inl p
      | Inr cur \<Rightarrow> gep_loop (Suc (i + length pre)) cur post)"
  by (induction pre arbitrary: i e) (auto split: sum.splits)

lemma NewGetElementPtr_pointer:
  "Value_Type src = PointerType T0 \<Longrightarrow>
   NewGetElementPtr src indices =
     (case spec_reached T0 indices of
        Inl p \<Rightarrow> Inl p
      | Inr T \<Rightarrow>
          Inr \<lparr>gep_parent = None, gep_name = [], gep_typ = PointerType T,
               gep_elem = T0, gep_src = src, gep_indices = indices\<rparr>)"
  by (simp add: gep_loop_0 spec_reached_def del: gep_loop.simps)

lemma NewGetElementPtr_walk:
  "Value_Type src = PointerType T0 \<Longrightarrow>
   gep_loop (Suc 0) T0 pre = Inr cur \<Longrightarrow>
   gep_step cur index = Inl p \<Longrightarrow>
   NewGetElementPtr src (i0 # pre @ index # post) = Inl p"
  by (simp add: gep_loop_append del: gep_step.simps)

subsection \<open>C1: type inference of getelementptr\<close>

text \<open>
  C1. For a source operand of pointer type \<open>pointer-to T0\<close>, \<open>NewGetElementPtr\<close>
  agrees with the walk of the spec, which skips the first index: where the walk
  reaches a type \<open>T\<close> the instruction is built and its \<open>Type()\<close> is
  \<open>pointer-to T\<close>, and where the walk fails the construction fails the same way.
  Replacing the first index by any other operand changes neither. For a pointer to
  \<open>{i32, [4 x i8]}\<close> and indices \<open>[_, 1, _]\<close> the type is \<open>pointer-to i8\<close>; for a
  pointer to \<open>[10 x i32]\<close> and two indices it is \<open>pointer-to i32\<close>.
\<close>

theorem C1_gep_type_inference:
  assumes "Value_Type src = PointerType T0"
  shows "(case spec_reached T0 indices of
            Inl p \<Rightarrow> NewGetElementPtr src indices = Inl p
          | Inr T \<Rightarrow>
              (\<exists>inst. NewGetElementPtr src indices = Inr inst \<and>
                      InstGetElementPtr_Type inst = PointerType T))
       \<and> spec_reached T0 (first # rest) = spec_reached T0 (first' # rest)
       \<and> map_sum id InstGetElementPtr_Type (NewGetElementPtr src (first # rest)) =
           map_sum id InstGetElementPtr_Type (NewGetElementPtr src (first' # rest))
       \<and> map_sum id InstGetElementPtr_Type
             (NewGetElementPtr (ptr_operand struct_i32_arr4i8) [i0, const_i32 1, i2]) =
           Inr (PointerType i8)
       \<and> map_sum id InstGetElementPtr_Type
             (NewGetElementPtr (ptr_operand arr10i32) [i0, i1]) =
           Inr (PointerType i32)"
proof -
  have walk: "case spec_reached T0 indices of
            Inl p \<Rightarrow> NewGetElementPtr src indices = Inl p
          | Inr T \<Rightarrow>
              (\<exists>inst. NewGetElementPtr src indices = Inr inst \<and>
                      InstGetElementPtr_Type inst = PointerType T)"
    using assms
    by (simp add: NewGetElementPtr_pointer InstGetElementPtr_Type_def
             del: NewGetElementPtr.simps split: sum.splits)
  have skip: "spec_reached T0 (first # rest) = spec_reached T0 (first' # rest)"
    by (simp add: spec_reached_def)
  have same: "map_sum id InstGetElementPtr_Type (NewGetElementPtr src (first # rest)) =
           map_sum id InstGetElementPtr_Type (NewGetElementPtr src (first' # rest))"
    using assms
    by (simp add: NewGetElementPtr_pointer InstGetElementPtr_Type_def skip
             del: NewGetElementPtr.simps split: sum.splits)
  have ex1: "map_sum id InstGetElementPtr_Type
             (NewGetElementPtr (ptr_operand struct_i32_arr4i8) [i0, const_i32 1, i2]) =
           Inr (PointerType i8)"
    by (simp add: ptr_operand_def struct_i32_arr4i8_def const_i32_def
          InstGetElementPtr_Type_def)
  have ex2: "map_sum id InstGetElementPtr_Type
             (NewGetElementPtr (ptr_operand arr10i32) [i0, i1]) =
           Inr (PointerType i32)"
    by (simp add: ptr_operand_def arr10i32_def InstGetElementPtr_Type_def)
  from walk skip same ex1 ex2 show ?thesis by blast
qed

theorem C1_gep_type_inference_witness:
  "Value_Type (ptr_operand struct_i32_arr4i8) = PointerType struct_i32_arr4i8
   \<and> spec_reached struct_i32_arr4i8 [const_i32 0, const_i32 1, const_i32 2] = Inr i8
   \<and> map_sum id InstGetElementPtr_Type
        (NewGetElementPtr (ptr_operand struct_i32_arr4i8)
           [const_i32 0, const_i32 1, const_i32 2]) = Inr (PointerType i8)
   \<and> map_sum id InstGetElementPtr_Type
        (NewGetElementPtr (ptr_operand struct_i32_arr4i8)
           [const_i32 7, const_i32 1, const_i32 2]) = Inr (PointerType i8)
   \<and> map_sum id InstGetElementPtr_Type
        (NewGetElementPtr (ptr_operand arr10i32) [const_i32 0, const_i32 3]) =
      Inr (PointerType i32)"
proof -
  have h: "Value_Type (ptr_operand struct_i32_arr4i8) = PointerType struct_i32_arr4i8"
    by (simp add: ptr_operand_def)
  have r: "spec_reached struct_i32_arr4i8 [const_i32 0, const_i32 1, const_i32 2] = Inr i8"
    by (simp add: spec_reached_def spec_step_def struct_i32_arr4i8_def const_i32_def i8_def)
  note t = C1_gep_type_inference [where indices = "[const_i32 0, const_i32 1, const_i32 2]"
      and first = "const_i32 7" and rest = "[const_i32 1, const_i32 2]"
      and first' = "const_i32 0" and ?i0.0 = "const_i32 0" and ?i2.0 = "const_i32 2"
      and ?i1.0 = "const_i32 3", OF h]
  from t have a: "\<exists>inst. NewGetElementPtr (ptr_operand struct_i32_arr4i8)
           [const_i32 0, const_i32 1, const_i32 2] = Inr inst \<and>
        InstGetElementPtr_Type inst = PointerType i8"
    by (simp only: r sum.case)
  from t have b: "map_sum id InstGetElementPtr_Type
        (NewGetElementPtr (ptr_operand struct_i32_arr4i8)
           [const_i32 7, const_i32 1, const_i32 2]) =
      map_sum id InstGetElementPtr_Type
        (NewGetElementPtr (ptr_operand struct_i32_arr4i8)
           [const_i32 0, const_i32 1, const_i32 2])"
    by blast
  from t have c: "map_sum id InstGetElementPtr_Type
        (NewGetElementPtr (ptr_operand arr10i32) [const_i32 0, const_i32 3]) =
      Inr (PointerType i32)"
    by blast
  from a have a': "map_sum id InstGetElementPtr_Type
        (NewGetElementPtr (ptr_operand struct_i32_arr4i8)
           [const_i32 0, const_i32 1, const_i32 2]) = Inr (PointerType i8)"
    by auto
  from h r a' b c show ?thesis by simp
qed

subsection \<open>C2: construction failures of getelementptr\<close>

text \<open>
  C2. \<open>NewGetElementPtr\<close> builds no instruction (it panics) when the source operand
  is not of pointer type, and, for a source of type \<open>pointer-to T0\<close>, when the loop
  has reached a type \<open>cur\<close> after the indices \<open>pre\<close> that follow the first one and
  the next index meets: a pointer type; a struct type with an index that is not a
  constant integer; a named type without definition; any other kind that is neither
  array nor struct. A named type with a definition counts as its definition.
\<close>

theorem C2_gep_construction_fails:
  "(\<not> is_PointerType (Value_Type src) \<longrightarrow>
      NewGetElementPtr src indices = Inl (ErrorInvalidSourceType (Value_Type src)))
   \<and> (Value_Type src = PointerType T0 \<and> gep_loop (Suc 0) T0 pre = Inr cur \<longrightarrow>
        (is_PointerType r \<and> resolve_named cur = Inr r \<longrightarrow>
           NewGetElementPtr src (i0 # pre @ index # post) = Inl ErrorCannotIndexPointer)
      \<and> (is_StructType r \<and> resolve_named cur = Inr r \<and> \<not> is_ConstantInt index \<longrightarrow>
           NewGetElementPtr src (i0 # pre @ index # post) =
             Inl ErrorStructIndexMustBeConstant)
      \<and> (cur = NamedType name None \<longrightarrow>
           NewGetElementPtr src (i0 # pre @ index # post) =
             Inl (ErrorUnresolvedNamedType name))
      \<and> (resolve_named cur = Inr r \<and> \<not> is_PointerType r \<and> \<not> is_ArrayType r \<and>
          \<not> is_StructType r \<longrightarrow>
           NewGetElementPtr src (i0 # pre @ index # post) =
             Inl (ErrorUnsupportedIndexTarget r)))"
proof -
  have src: "\<not> is_PointerType (Value_Type src) \<longrightarrow>
      NewGetElementPtr src indices = Inl (ErrorInvalidSourceType (Value_Type src))"
    by (cases "Value_Type src") simp_all
  have ptr: "gep_step cur index = Inl ErrorCannotIndexPointer"
    if "is_PointerType r" "resolve_named cur = Inr r"
    using that by (cases r) simp_all
  have str: "gep_step cur index = Inl ErrorStructIndexMustBeConstant"
    if "is_StructType r" "resolve_named cur = Inr r" "\<not> is_ConstantInt index"
    using that by (cases r; cases index) simp_all
  have nam: "gep_step cur index = Inl (ErrorUnresolvedNamedType name)"
    if "cur = NamedType name None"
    using that by simp
  have oth: "gep_step cur index = Inl (ErrorUnsupportedIndexTarget r)"
    if "resolve_named cur = Inr r" "\<not> is_PointerType r" "\<not> is_ArrayType r"
       "\<not> is_StructType r"
    using that by (cases r) simp_all
  show ?thesis
    using src ptr str nam oth NewGetElementPtr_walk [of src T0 pre cur index _ i0 post]
    by blast
qed

theorem C2_gep_construction_fails_witness:
  "\<not> is_PointerType (Value_Type (local_operand i32))
   \<and> NewGetElementPtr (local_operand i32) [const_i32 0] = Inl (ErrorInvalidSourceType i32)
   \<and> NewGetElementPtr (ptr_operand struct_with_ptr) [const_i32 0, const_i32 1, const_i32 0] =
       Inl ErrorCannotIndexPointer
   \<and> NewGetElementPtr (ptr_operand struct_with_ptr) [const_i32 0, local_operand i32] =
       Inl ErrorStructIndexMustBeConstant
   \<and> NewGetElementPtr (ptr_operand opaque_named) [const_i32 0, const_i32 0] =
       Inl (ErrorUnresolvedNamedType ''opaque'')
   \<and> NewGetElementPtr (ptr_operand i32) [const_i32 0, const_i32 0] =
       Inl (ErrorUnsupportedIndexTarget i32)"
proof -
  have h0: "\<not> is_PointerType (Value_Type (local_operand i32))"
    by (simp add: local_operand_def i32_def)
  have v: "Value_Type (local_operand i32) = i32"
    by (simp add: local_operand_def)
  have a: "NewGetElementPtr (local_operand i32) [const_i32 0] = Inl (ErrorInvalidSourceType i32)"
    using C2_gep_construction_fails [of "local_operand i32" "[const_i32 0]"] h0 v
    by simp
  have hp: "Value_Type (ptr_operand struct_with_ptr) = PointerType struct_with_ptr"
    by (simp add: ptr_operand_def)
  have l1: "gep_loop (Suc 0) struct_with_ptr [const_i32 1] = Inr (PointerType i8)"
    by (simp add: struct_with_ptr_def const_i32_def)
  have b: "NewGetElementPtr (ptr_operand struct_with_ptr)
      [const_i32 0, const_i32 1, const_i32 0] = Inl ErrorCannotIndexPointer"
    using C2_gep_construction_fails [of "ptr_operand struct_with_ptr" _ struct_with_ptr
        "[const_i32 1]" "PointerType i8" "PointerType i8" "const_i32 0" "const_i32 0" "[]"]
      hp l1
    by simp
  have l0: "gep_loop (Suc 0) struct_with_ptr [] = Inr struct_with_ptr"
    by simp
  have c: "NewGetElementPtr (ptr_operand struct_with_ptr) [const_i32 0, local_operand i32] =
       Inl ErrorStructIndexMustBeConstant"
    using C2_gep_construction_fails [of "ptr_operand struct_with_ptr" _ struct_with_ptr
        "[]" struct_with_ptr struct_with_ptr "const_i32 0" "local_operand i32" "[]"]
      hp l0
    by (simp add: struct_with_ptr_def local_operand_def)
  have hn: "Value_Type (ptr_operand opaque_named) = PointerType opaque_named"
    by (simp add: ptr_operand_def)
  have d: "NewGetElementPtr (ptr_operand opaque_named) [const_i32 0, const_i32 0] =
       Inl (ErrorUnresolvedNamedType ''opaque'')"
    using C2_gep_construction_fails [of "ptr_operand opaque_named" _ opaque_named
        "[]" opaque_named _ "const_i32 0" "const_i32 0" "[]" "''opaque''"]
      hn
    by (simp add: opaque_named_def)
  have hi: "Value_Type (ptr_operand i32) = PointerType i32"
    by (simp add: ptr_operand_def)
  have e: "NewGetElementPtr (ptr_operand i32) [const_i32 0, const_i32 0] =
       Inl (ErrorUnsupportedIndexTarget i32)"
    using C2_gep_construction_fails [of "ptr_operand i32" _ i32
        "[]" i32 i32 "const_i32 0" "const_i32 0" "[]"]
      hi
    by (simp add: i32_def)
  from h0 a b c d e show ?thesis by simp
qed

subsection \<open>C3: construction of load\<close>

text \<open>
  C3. \<open>NewLoad\<close> takes the operand alone and has no access to any basic block: it
  either panics or returns a fresh instruction that is attached to no block. For an
  operand whose type is not a pointer type it panics, so there is no instruction that
  could be appended; for an operand of type \<open>pointer-to elem\<close> it returns an
  instruction whose \<open>Type()\<close> is \<open>elem\<close>, with the operand as source and no
  parent.
\<close>

theorem C3_load_construction:
  "(\<not> is_PointerType (Value_Type src) \<longrightarrow>
      NewLoad src = Inl (ErrorInvalidSourceType (Value_Type src)))
   \<and> (Value_Type src = PointerType elem \<longrightarrow>
        (\<exists>inst. NewLoad src = Inr inst \<and> InstLoad_Type inst = elem \<and>
           load_src inst = src \<and> load_parent inst = None \<and> load_name inst = []))"
  by (cases "Value_Type src") (simp_all add: InstLoad_Type_def)

theorem C3_load_construction_witness:
  "\<not> is_PointerType (Value_Type (local_operand i32))
   \<and> NewLoad (local_operand i32) = Inl (ErrorInvalidSourceType i32)
   \<and> Value_Type (ptr_operand i32) = PointerType i32
   \<and> map_sum id InstLoad_Type (NewLoad (ptr_operand i32)) = Inr i32"
proof -
  have h0: "\<not> is_PointerType (Value_Type (local_operand i32))"
    by (simp add: local_operand_def i32_def)
  have v: "Value_Type (local_operand i32) = i32"
    by (simp add: local_operand_def)
  have h1: "Value_Type (ptr_operand i32) = PointerType i32"
    by (simp add: ptr_operand_def)
  from C3_load_construction [of "local_operand i32"] h0 v
  have a: "NewLoad (local_operand i32) = Inl (ErrorInvalidSourceType i32)"
    by simp
  from C3_load_construction [of "ptr_operand i32" i32] h1
  have "\<exists>inst. NewLoad (ptr_operand i32) = Inr inst \<and> InstLoad_Type inst = i32"
    by blast
  then have b: "map_sum id InstLoad_Type (NewLoad (ptr_operand i32)) = Inr i32"
    by auto
  from h0 a h1 b show ?thesis by simp
qed

subsection \<open>C8: the declared type is fixed at construction\<close>

text \<open>
  C8. \<open>SetSrc\<close> of a load, and \<open>SetSrc\<close> and \<open>SetIndices\<close> of a getelementptr,
  write the one field they name: \<open>Type()\<close> returns what it returned before, whatever
  the new operand is, and every other field is as it was.
\<close>

theorem C8_type_fixed_after_construction:
  "InstLoad_Type (InstLoad_SetSrc ld src) = InstLoad_Type ld
   \<and> InstLoad_SetSrc ld src = ld\<lparr>load_src := src\<rparr>
   \<and> load_parent (InstLoad_SetSrc ld src) = load_parent ld
   \<and> load_name (InstLoad_SetSrc ld src) = load_name ld
   \<and> load_src (InstLoad_SetSrc ld src) = src
   \<and> InstGetElementPtr_Type (InstGetElementPtr_SetSrc gep src) = InstGetElementPtr_Type gep
   \<and> gep_parent (InstGetElementPtr_SetSrc gep src) = gep_parent gep
   \<and> gep_name (InstGetElementPtr_SetSrc gep src) = gep_name gep
   \<and> gep_elem (InstGetElementPtr_SetSrc gep src) = gep_elem gep
   \<and> gep_indices (InstGetElementPtr_SetSrc gep src) = gep_indices gep
   \<and> gep_src (InstGetElementPtr_SetSrc gep src) = src
   \<and> InstGetElementPtr_Type (InstGetElementPtr_SetIndices gep indices) =
       InstGetElementPtr_Type gep
   \<and> gep_parent (InstGetElementPtr_SetIndices gep indices) = gep_parent gep
   \<and> gep_name (InstGetElementPtr_SetIndices gep indices) = gep_name gep
   \<and> gep_elem (InstGetElementPtr_SetIndices gep indices) = gep_elem gep
   \<and> gep_src (InstGetElementPtr_SetIndices gep indices) = gep_src gep
   \<and> gep_indices (InstGetElementPtr_SetIndices gep indices) = indices"
  by (simp add: InstLoad_Type_def InstLoad_SetSrc_def InstGetElementPtr_Type_def
        InstGetElementPtr_SetSrc_def InstGetElementPtr_SetIndices_def)

subsection \<open>C9: struct indices out of range\<close>

lemma gep_step_IndexOutOfRange:
  "gep_step e index = Inl (IndexOutOfRange i n) \<Longrightarrow>
   \<exists>ty x fs. index = ConstantInt ty x \<and> resolve_named e = Inr (StructType fs) \<and>
     i = Int64 x \<and> n = length fs \<and> (i < 0 \<or> int n \<le> i)"
proof (cases "resolve_named e")
  case (Inl p)
  assume "gep_step e index = Inl (IndexOutOfRange i n)"
  with Inl show ?thesis
    by (cases e) (auto split: option.splits)
next
  case (Inr r)
  assume "gep_step e index = Inl (IndexOutOfRange i n)"
  with Inr have "index_elem r index = Inl (IndexOutOfRange i n)"
    by simp
  then have "\<exists>ty x fs. index = ConstantInt ty x \<and> r = StructType fs \<and>
     i = Int64 x \<and> n = length fs \<and> (i < 0 \<or> int n \<le> i)"
    by (cases r; cases index) (auto split: if_splits)
  with Inr show ?thesis by auto
qed

lemma gep_loop_IndexOutOfRange:
  "gep_loop (Suc k) e indices = Inl (IndexOutOfRange i n) \<Longrightarrow>
   \<exists>pre ty x post cur fs. indices = pre @ ConstantInt ty x # post \<and>
     gep_loop (Suc 0) e pre = Inr cur \<and> resolve_named cur = Inr (StructType fs) \<and>
     i = Int64 x \<and> n = length fs \<and> (i < 0 \<or> int n \<le> i)"
proof (induction indices arbitrary: k e)
  case Nil
  then show ?case by simp
next
  case (Cons index indices)
  show ?case
  proof (cases "gep_step e index")
    case (Inl p)
    with Cons.prems have "gep_step e index = Inl (IndexOutOfRange i n)"
      by simp
    from gep_step_IndexOutOfRange [OF this] obtain ty x fs where
      "index = ConstantInt ty x" "resolve_named e = Inr (StructType fs)"
      "i = Int64 x" "n = length fs" "i < 0 \<or> int n \<le> i"
      by blast
    then have "index # indices = [] @ ConstantInt ty x # indices \<and>
      gep_loop (Suc 0) e [] = Inr e \<and> resolve_named e = Inr (StructType fs) \<and>
      i = Int64 x \<and> n = length fs \<and> (i < 0 \<or> int n \<le> i)"
      by simp
    then show ?thesis by blast
  next
    case (Inr e')
    with Cons.prems have "gep_loop (Suc (Suc k)) e' indices = Inl (IndexOutOfRange i n)"
      by simp
    from Cons.IH [OF this] obtain pre ty x post cur fs where
      p: "indices = pre @ ConstantInt ty x # post" "gep_loop (Suc 0) e' pre = Inr cur"
        "resolve_named cur = Inr (StructType fs)" "i = Int64 x" "n = length fs"
        "i < 0 \<or> int n \<le> i"
      by blast
    have "gep_loop (Suc 0) e (index # pre) = Inr cur"
      using Inr p(2) by (simp add: gep_loop_Suc del: gep_step.simps)
    with p have "index # indices = (index # pre) @ ConstantInt ty x # post \<and>
      gep_loop (Suc 0) e (index # pre) = Inr cur \<and>
      resolve_named cur = Inr (StructType fs) \<and>
      i = Int64 x \<and> n = length fs \<and> (i < 0 \<or> int n \<le> i)"
      by simp
    then show ?thesis by blast
  qed
qed

text \<open>
  C9. When the loop of \<open>NewGetElementPtr\<close> has reached a struct type (directly or
  as the definition of a named type) and the next index is a constant integer, then a
  value that is negative or not below the number of fields makes the construction
  panic with Go's index-out-of-range, and a value within the range selects that field.
  Conversely the construction ends in index-out-of-range only at a constant index
  into a struct that is outside the struct's field range: where every constant struct
  index is within range, that panic cannot happen.
\<close>

theorem C9_struct_index_range:
  "(Value_Type src = PointerType T0 \<and> gep_loop (Suc 0) T0 pre = Inr cur \<and>
    resolve_named cur = Inr (StructType fs) \<longrightarrow>
      (Int64 x < 0 \<or> int (length fs) \<le> Int64 x \<longrightarrow>
         NewGetElementPtr src (i0 # pre @ ConstantInt ty x # post) =
           Inl (IndexOutOfRange (Int64 x) (length fs)))
    \<and> (0 \<le> Int64 x \<and> Int64 x < int (length fs) \<longrightarrow>
         nat (Int64 x) < length fs \<and>
         gep_loop (Suc 0) T0 (pre @ [ConstantInt ty x]) = Inr (fs ! nat (Int64 x))))
   \<and> (NewGetElementPtr src indices = Inl (IndexOutOfRange i n) \<longrightarrow>
        (\<exists>T0 i0 pre ty x post cur fs.
           Value_Type src = PointerType T0 \<and>
           indices = i0 # pre @ ConstantInt ty x # post \<and>
           gep_loop (Suc 0) T0 pre = Inr cur \<and>
           resolve_named cur = Inr (StructType fs) \<and>
           i = Int64 x \<and> n = length fs \<and> (Int64 x < 0 \<or> int (length fs) \<le> Int64 x)))"
proof -
  have out: "NewGetElementPtr src (i0 # pre @ ConstantInt ty x # post) =
           Inl (IndexOutOfRange (Int64 x) (length fs))"
    if "Value_Type src = PointerType T0" "gep_loop (Suc 0) T0 pre = Inr cur"
       "resolve_named cur = Inr (StructType fs)"
       "Int64 x < 0 \<or> int (length fs) \<le> Int64 x"
  proof -
    have "gep_step cur (ConstantInt ty x) = Inl (IndexOutOfRange (Int64 x) (length fs))"
      using that(3,4) by auto
    from NewGetElementPtr_walk [OF that(1,2) this] show ?thesis .
  qed
  have inr: "nat (Int64 x) < length fs \<and>
         gep_loop (Suc 0) T0 (pre @ [ConstantInt ty x]) = Inr (fs ! nat (Int64 x))"
    if "gep_loop (Suc 0) T0 pre = Inr cur" "resolve_named cur = Inr (StructType fs)"
       "0 \<le> Int64 x \<and> Int64 x < int (length fs)"
  proof -
    have "gep_step cur (ConstantInt ty x) = Inr (fs ! nat (Int64 x))"
      using that(2,3) by auto
    then have "gep_loop (Suc 0) T0 (pre @ [ConstantInt ty x]) = Inr (fs ! nat (Int64 x))"
      using that(1) by (simp add: gep_loop_append del: gep_step.simps)
    moreover have "nat (Int64 x) < length fs"
      using that(3) by linarith
    ultimately show ?thesis by simp
  qed
  have conv: "\<exists>T0 i0 pre ty x post cur fs.
           Value_Type src = PointerType T0 \<and>
           indices = i0 # pre @ ConstantInt ty x # post \<and>
           gep_loop (Suc 0) T0 pre = Inr cur \<and>
           resolve_named cur = Inr (StructType fs) \<and>
           i = Int64 x \<and> n = length fs \<and> (Int64 x < 0 \<or> int (length fs) \<le> Int64 x)"
    if f: "NewGetElementPtr src indices = Inl (IndexOutOfRange i n)"
  proof -
    from f obtain T0 where t: "Value_Type src = PointerType T0"
      by (cases "Value_Type src") auto
    with f have l: "gep_loop 0 T0 indices = Inl (IndexOutOfRange i n)"
      by (auto split: sum.splits)
    then obtain i0 rest where r: "indices = i0 # rest"
      by (cases indices) auto
    with l have "gep_loop (Suc 0) T0 rest = Inl (IndexOutOfRange i n)"
      by simp
    from gep_loop_IndexOutOfRange [OF this] obtain pre ty x post cur fs where
      "rest = pre @ ConstantInt ty x # post" "gep_loop (Suc 0) T0 pre = Inr cur"
      "resolve_named cur = Inr (StructType fs)" "i = Int64 x" "n = length fs"
      "i < 0 \<or> int n \<le> i"
      by blast
    with t r have "Value_Type src = PointerType T0 \<and>
           indices = i0 # pre @ ConstantInt ty x # post \<and>
           gep_loop (Suc 0) T0 pre = Inr cur \<and>
           resolve_named cur = Inr (StructType fs) \<and>
           i = Int64 x \<and> n = length fs \<and> (Int64 x < 0 \<or> int (length fs) \<le> Int64 x)"
      by simp
    then show ?thesis by blast
  qed
  from out inr conv show ?thesis by blast
qed

theorem C9_struct_index_range_witness:
  "Value_Type (ptr_operand struct_i32_arr4i8) = PointerType struct_i32_arr4i8
   \<and> gep_loop (Suc 0) struct_i32_arr4i8 [] = Inr struct_i32_arr4i8
   \<and> Int64 (-1) < 0
   \<and> NewGetElementPtr (ptr_operand struct_i32_arr4i8) [const_i32 0, const_i32 (-1)] =
       Inl (IndexOutOfRange (-1) 2)
   \<and> int (length [i32, ArrayType 4 i8]) \<le> Int64 2
   \<and> NewGetElementPtr (ptr_operand struct_i32_arr4i8) [const_i32 0, const_i32 2] =
       Inl (IndexOutOfRange 2 2)
   \<and> gep_loop (Suc 0) struct_i32_arr4i8 [const_i32 1] = Inr (ArrayType 4 i8)"
proof -
  have h: "Value_Type (ptr_operand struct_i32_arr4i8) = PointerType struct_i32_arr4i8"
    by (simp add: ptr_operand_def)
  have l: "gep_loop (Suc 0) struct_i32_arr4i8 [] = Inr struct_i32_arr4i8"
    by simp
  have r: "resolve_named struct_i32_arr4i8 = Inr (StructType [i32, ArrayType 4 i8])"
    by (simp add: struct_i32_arr4i8_def)
  have m: "Int64 (-1) < 0" and m': "Int64 (-1) = -1"
    by simp_all
  have t: "int (length [i32, ArrayType 4 i8]) \<le> Int64 2" and t': "Int64 2 = 2"
    and o: "0 \<le> Int64 1 \<and> Int64 1 < int (length [i32, ArrayType 4 i8])"
    by simp_all
  note c = C9_struct_index_range [where src = "ptr_operand struct_i32_arr4i8"
      and ?T0.0 = struct_i32_arr4i8 and pre = "[]" and cur = struct_i32_arr4i8
      and fs = "[i32, ArrayType 4 i8]" and ?i0.0 = "const_i32 0" and ty = i32 and post = "[]"]
  have a: "NewGetElementPtr (ptr_operand struct_i32_arr4i8) [const_i32 0, const_i32 (-1)] =
       Inl (IndexOutOfRange (-1) 2)"
    using c [where x = "-1"] h l r m m' by (simp add: const_i32_def)
  have b: "NewGetElementPtr (ptr_operand struct_i32_arr4i8) [const_i32 0, const_i32 2] =
       Inl (IndexOutOfRange 2 2)"
    using c [where x = 2] h l r t t' by (simp add: const_i32_def)
  have d: "gep_loop (Suc 0) struct_i32_arr4i8 [const_i32 1] = Inr (ArrayType 4 i8)"
    using c [where x = 1] h l r o by (simp add: const_i32_def)
  from h l m a t b d show ?thesis by blast
qed

section \<open>Properties of functions\<close>

subsection \<open>C5: the text of a function\<close>

lemma write_params_Suc:
  "write_params pS (Suc i) params buf = buf @ concat (map (\<lambda>p. '', '' @ pS p) params)"
  by (induction params arbitrary: i buf) simp_all

lemma comma_joined_Cons:
  "comma_joined (x # xs) = x @ concat (map (\<lambda>y. '', '' @ y) xs)"
  by (induction xs arbitrary: x) simp_all

lemma write_params_0: "write_params pS 0 params [] = comma_joined (map pS params)"
proof (cases params)
  case Nil
  then show ?thesis by simp
next
  case (Cons p ps)
  have "concat (map (\<lambda>p. '', '' @ pS p) ps) = concat (map (\<lambda>y. '', '' @ y) (map pS ps))"
    by (simp add: comp_def)
  with Cons show ?thesis
    by (simp add: write_params_Suc comma_joined_Cons del: map_map)
qed

lemma write_blocks_concat:
  "write_blocks bS blocks buf = buf @ concat (map (\<lambda>b. bS b @ [CHR 0x0A]) blocks)"
  by (induction blocks arbitrary: buf) simp_all

text \<open>
  C5. \<open>String\<close> of a function with nil blocks is \<open>declare\<close>, the result type, the
  identifier and the parameter list in parentheses; with a block list it is
  \<open>define\<close>, the same signature, an opening brace, the text of every block followed
  by a line feed, and a closing brace. The parameter list is the parameter types joined
  by comma and space, followed by \<open>...\<close> exactly when the signature is variadic, with
  a comma before it exactly when there is a fixed parameter.
\<close>

theorem C5_function_string:
  "Function_String tS pS encG bS f =
     (case func_blocks f of
        None \<Rightarrow> ''declare '' @ spec_signature tS pS encG f
      | Some blocks \<Rightarrow>
          ''define '' @ spec_signature tS pS encG f @ '' {'' @ [CHR 0x0A] @
          concat (map (\<lambda>b. bS b @ [CHR 0x0A]) blocks) @ ''}'')"
proof -
  let ?sig = "func_sig f"
  have marker: "(if sig_variadic ?sig
             then (if length (sig_params ?sig) > 0
                   then write_params pS 0 (sig_params ?sig) [] @ '', ''
                   else write_params pS 0 (sig_params ?sig) []) @ ''...''
             else write_params pS 0 (sig_params ?sig) []) =
        comma_joined (map pS (sig_params ?sig)) @ variadic_marker ?sig"
    unfolding write_params_0
    by (cases "sig_params ?sig") (simp_all add: variadic_marker_def)
  show ?thesis
    unfolding Function_String_def Let_def Function_Sig_def marker
    by (simp add: spec_signature_def write_blocks_concat Function_ValueString_def
          Function_Name_def split: option.splits)
qed

lemma printf_decl_String:
  "Function_String sample_type_String sample_type_String sample_Global sample_block_String
     printf_decl =
     ''declare i32 @printf(i8*, ...)''"
  by (simp add: Function_String_def Function_Sig_def Function_ValueString_def
        Function_Name_def printf_decl_def NewFunction_def sample_Global_def i32_def i8_def
        digit_def)

subsection \<open>C7: a failing identifier assignment in SetBlocks\<close>

lemma AssignIDs_loop_shape:
  "AssignIDs_loop Err ba bs f = (r, bs', f') \<Longrightarrow>
   length bs' = length bs \<and>
   (\<forall>j<length bs. bs' ! j = bs ! j \<or> (\<exists>g. bs' ! j = fst (snd (ba (bs ! j) g))))"
proof (induction bs arbitrary: f r bs' f')
  case Nil
  then show ?case by simp
next
  case (Cons b bs)
  obtain r1 b1 f1 where ba: "ba b f = (r1, b1, f1)"
    by (cases "ba b f") auto
  show ?case
  proof (cases r1)
    case (Some e)
    with ba Cons.prems have "bs' = b1 # bs"
      by simp
    moreover have "b1 = fst (snd (ba b f))"
      using ba by simp
    ultimately show ?thesis
      by (auto simp: nth_Cons split: nat.splits)
  next
    case None
    obtain r2 bs2 f2 where l: "AssignIDs_loop Err ba bs f1 = (r2, bs2, f2)"
      by (cases "AssignIDs_loop Err ba bs f1") auto
    with ba None Cons.prems have e: "bs' = b1 # bs2"
      by simp
    have b1: "b1 = fst (snd (ba b f))"
      using ba by simp
    from Cons.IH [OF l] e b1 show ?thesis
      by (auto simp: nth_Cons split: nat.splits)
  qed
qed

lemma AssignIDs_loop_error:
  "AssignIDs_loop Err ba bs f = (Some err, bs', f') \<Longrightarrow>
   \<exists>k e g. k < length bs \<and> fst (ba (bs ! k) g) = Some e \<and> err = Err e \<and>
     (\<forall>j<length bs. k < j \<longrightarrow> bs' ! j = bs ! j)"
proof (induction bs arbitrary: f bs' f')
  case Nil
  then show ?case by simp
next
  case (Cons b bs)
  obtain r1 b1 f1 where ba: "ba b f = (r1, b1, f1)"
    by (cases "ba b f") auto
  show ?case
  proof (cases r1)
    case (Some e)
    with ba Cons.prems have "bs' = b1 # bs" "err = Err e"
      by simp_all
    moreover have "fst (ba ((b # bs) ! 0) f) = Some e"
      using ba Some by simp
    ultimately have "0 < length (b # bs) \<and> fst (ba ((b # bs) ! 0) f) = Some e \<and> err = Err e \<and>
     (\<forall>j<length (b # bs). 0 < j \<longrightarrow> bs' ! j = (b # bs) ! j)"
      by (auto simp: nth_Cons split: nat.splits)
    then show ?thesis by blast
  next
    case None
    obtain r2 bs2 f2 where l: "AssignIDs_loop Err ba bs f1 = (r2, bs2, f2)"
      by (cases "AssignIDs_loop Err ba bs f1") auto
    with ba None Cons.prems have e: "bs' = b1 # bs2" "r2 = Some err"
      by simp_all
    from Cons.IH [OF l [unfolded e(2)]] obtain k e' g where
      k: "k < length bs" "fst (ba (bs ! k) g) = Some e'" "err = Err e'"
        "\<forall>j<length bs. k < j \<longrightarrow> bs2 ! j = bs ! j"
      by blast
    then have "Suc k < length (b # bs) \<and> fst (ba ((b # bs) ! Suc k) g) = Some e' \<and> err = Err e' \<and>
     (\<forall>j<length (b # bs). Suc k < j \<longrightarrow> bs' ! j = (b # bs) ! j)"
      using e(1) by (auto simp: nth_Cons split: nat.splits)
    then show ?thesis by blast
  qed
qed


text \<open>
  Conversely, an error that \<open>SetBlocks\<close> returns is the error of the pass over one of
  the new blocks, passed through \<open>Err\<close> twice.
\<close>

lemma SetBlocks_error_origin:
  assumes "SetBlocks Err ba this f blocks = (Some err, f')"
  shows "\<exists>bs bs' k e g. blocks = Some bs \<and> func_blocks f' = Some bs' \<and>
      length bs' = length bs \<and> k < length bs \<and>
      fst (ba (BasicBlock_SetParent (bs ! k) this) g) = Some e \<and> err = Err (Err e) \<and>
      (Err e = e \<longrightarrow> err = e) \<and>
      (\<forall>j<length bs. k < j \<longrightarrow> bs' ! j = BasicBlock_SetParent (bs ! j) this) \<and>
      (\<forall>j<length bs. bs' ! j = BasicBlock_SetParent (bs ! j) this \<or>
         (\<exists>g. bs' ! j = fst (snd (ba (BasicBlock_SetParent (bs ! j) this) g)))) \<and>
      ((\<forall>b g. block_parent (fst (snd (ba b g))) = block_parent b) \<longrightarrow>
         (\<forall>b\<in>set bs'. block_parent b = Some this))"
proof -
  let ?sp = "\<lambda>block. BasicBlock_SetParent block this"
  obtain r1 f1 where a: "AssignIDs Err ba (f\<lparr>func_blocks := map_option (map ?sp) blocks\<rparr>) = (r1, f1)"
    by (cases "AssignIDs Err ba (f\<lparr>func_blocks := map_option (map ?sp) blocks\<rparr>)") auto
  with assms obtain e1 where r1: "r1 = Some e1" "err = Err e1" "f' = f1"
    by (cases r1) (auto simp: SetBlocks_def)
  from a r1 obtain bs where bs: "blocks = Some bs"
    by (cases blocks) (auto simp: AssignIDs_def)
  obtain r2 bs2 f2 where l: "AssignIDs_loop Err ba (map ?sp bs) (f\<lparr>func_blocks := Some (map ?sp bs)\<rparr>) = (r2, bs2, f2)"
    by (cases "AssignIDs_loop Err ba (map ?sp bs) (f\<lparr>func_blocks := Some (map ?sp bs)\<rparr>)") auto
  with a bs r1 have r2: "r2 = Some e1" and f1: "func_blocks f1 = Some bs2"
    by (auto simp: AssignIDs_def)
  from AssignIDs_loop_shape [OF l] have sh: "length bs2 = length bs"
    "\<forall>j<length bs. bs2 ! j = ?sp (bs ! j) \<or> (\<exists>g. bs2 ! j = fst (snd (ba (?sp (bs ! j)) g)))"
    by auto
  from AssignIDs_loop_error [OF l [unfolded r2]] obtain k e g where
    k: "k < length bs" "fst (ba (?sp (bs ! k)) g) = Some e" "e1 = Err e"
      "\<forall>j<length bs. k < j \<longrightarrow> bs2 ! j = ?sp (bs ! j)"
    by auto
  have par: "\<forall>b\<in>set bs2. block_parent b = Some this"
    if p: "\<forall>b g. block_parent (fst (snd (ba b g))) = block_parent b"
  proof
    fix b assume "b \<in> set bs2"
    then obtain j where j: "j < length bs" "b = bs2 ! j"
      using sh(1) by (auto simp: in_set_conv_nth)
    with sh(2) have "b = ?sp (bs ! j) \<or> (\<exists>g. b = fst (snd (ba (?sp (bs ! j)) g)))"
      by simp
    then show "block_parent b = Some this"
      using p by (auto simp: BasicBlock_SetParent_def)
  qed
  have c2: "func_blocks f' = Some bs2"
    using f1 r1(3) by simp
  have c6: "err = Err (Err e)"
    using r1(2) k(3) by simp
  have same: "Err e = e \<longrightarrow> err = e"
    using c6 by simp
  have par': "(\<forall>b g. block_parent (fst (snd (ba b g))) = block_parent b) \<longrightarrow>
         (\<forall>b\<in>set bs2. block_parent b = Some this)"
    by (rule impI) (rule par)
  show ?thesis
  proof (rule exI [of _ bs], rule exI [of _ bs2], rule exI [of _ k], rule exI [of _ e],
      rule exI [of _ g], intro conjI)
    show "blocks = Some bs" by (rule bs)
    show "func_blocks f' = Some bs2" by (rule c2)
    show "length bs2 = length bs" by (rule sh(1))
    show "k < length bs" by (rule k(1))
    show "fst (ba (BasicBlock_SetParent (bs ! k) this) g) = Some e" by (rule k(2))
    show "err = Err (Err e)" by (rule c6)
    show "Err e = e \<longrightarrow> err = e" by (rule same)
    show "\<forall>j<length bs. k < j \<longrightarrow> bs2 ! j = BasicBlock_SetParent (bs ! j) this"
      by (rule k(4))
    show "\<forall>j<length bs. bs2 ! j = BasicBlock_SetParent (bs ! j) this \<or>
         (\<exists>g. bs2 ! j = fst (snd (ba (BasicBlock_SetParent (bs ! j) this) g)))"
      by (rule sh(2))
    show "(\<forall>b g. block_parent (fst (snd (ba b g))) = block_parent b) \<longrightarrow>
         (\<forall>b\<in>set bs2. block_parent b = Some this)"
      by (rule par')
  qed
qed



subsection \<open>C4: identifier assignment\<close>

lemma number_append:
  "number c (xs @ ys) = number c xs @ number (c + of_nat (count_unnamed xs)) ys"
  by (induction xs arbitrary: c) (simp_all add: count_unnamed_def add.assoc)

lemma count_unnamed_append [simp]:
  "count_unnamed (xs @ ys) = count_unnamed xs + count_unnamed ys"
  by (simp add: count_unnamed_def)

lemma inst_names_Cons:
  "inst_names (inst # insts) =
     (case Instruction_Name inst of None \<Rightarrow> inst_names insts | Some n \<Rightarrow> n # inst_names insts)"
  by (simp add: inst_names_def List.map_filter_simps split: option.splits)

lemma Instruction_Name_SetName:
  "Instruction_Name (Instruction_SetName inst n) = map_option (\<lambda>_. n) (Instruction_Name inst)"
  by (cases inst) (simp_all add: InstLoad_SetName_def InstGetElementPtr_SetName_def)

lemma Instruction_SetName_twice:
  "Instruction_SetName (Instruction_SetName inst n) m = Instruction_SetName inst m"
  by (cases inst) (simp_all add: InstLoad_SetName_def InstGetElementPtr_SetName_def)

lemma assign_inst_result:
  "assign_inst inst f =
     (case Instruction_Name inst of
        None \<Rightarrow> (inst, f)
      | Some n \<Rightarrow>
          if n = [] then (Instruction_SetName inst (Itoa (sint (func_localID f))),
                          f\<lparr>func_localID := func_localID f + 1\<rparr>)
          else (inst, f))"
  by (simp add: assign_inst_def nextID_def split: option.splits)

lemma assign_insts_result:
  "assign_insts insts f = (insts', f') \<Longrightarrow>
   f' = f\<lparr>func_localID := func_localID f + of_nat (count_unnamed (inst_names insts))\<rparr> \<and>
   inst_names insts' = number (func_localID f) (inst_names insts) \<and>
   map (\<lambda>inst. Instruction_SetName inst []) insts' =
     map (\<lambda>inst. Instruction_SetName inst []) insts"
proof (induction insts arbitrary: f insts' f')
  case Nil
  then show ?case by (simp add: inst_names_def count_unnamed_def)
next
  case (Cons inst insts)
  obtain i1 f1 where a: "assign_inst inst f = (i1, f1)"
    by (cases "assign_inst inst f") auto
  obtain is2 f2 where b: "assign_insts insts f1 = (is2, f2)"
    by (cases "assign_insts insts f1") auto
  from Cons.prems a b have e: "insts' = i1 # is2" "f' = f2"
    by simp_all
  note ih = Cons.IH [OF b]
  show ?case
  proof (cases "Instruction_Name inst")
    case None
    with a have "i1 = inst" "f1 = f"
      by (simp_all add: assign_inst_result)
    with ih e None show ?thesis
      by (simp add: inst_names_Cons)
  next
    case (Some n)
    show ?thesis
    proof (cases "n = []")
      case True
      with a Some have i1: "i1 = Instruction_SetName inst (Itoa (sint (func_localID f)))"
        and f1: "f1 = f\<lparr>func_localID := func_localID f + 1\<rparr>"
        by (simp_all add: assign_inst_result)
      from ih e Some True i1 f1 show ?thesis
        by (simp add: inst_names_Cons Instruction_Name_SetName Instruction_SetName_twice
              count_unnamed_def add.assoc)
    next
      case False
      with a Some have "i1 = inst" "f1 = f"
        by (simp_all add: assign_inst_result)
      with ih e Some False show ?thesis
        by (simp add: inst_names_Cons count_unnamed_def)
    qed
  qed
qed

lemma assignIDs_result:
  "assignIDs block f = (r, block', f') \<Longrightarrow>
   r = None \<and>
   f' = f\<lparr>func_localID := func_localID f + of_nat (count_unnamed (entity_names block))\<rparr> \<and>
   entity_names block' = number (func_localID f) (entity_names block) \<and>
   clear_names block' = clear_names block \<and>
   block_parent block' = block_parent block"
proof -
  assume a: "assignIDs block f = (r, block', f')"
  show ?thesis
  proof (cases "block_name block = []")
    case True
    let ?f1 = "f\<lparr>func_localID := func_localID f + 1\<rparr>"
    obtain is2 f2 where b: "assign_insts (block_insts block) ?f1 = (is2, f2)"
      by (cases "assign_insts (block_insts block) ?f1") auto
    with a True have e: "r = None" "f' = f2"
      "block' = block\<lparr>block_name := Itoa (sint (func_localID f)), block_insts := is2\<rparr>"
      by (simp_all add: assignIDs_def nextID_def)
    from assign_insts_result [OF b] e True show ?thesis
      by (simp add: entity_names_def clear_names_def count_unnamed_def add.assoc)
  next
    case False
    obtain is2 f2 where b: "assign_insts (block_insts block) f = (is2, f2)"
      by (cases "assign_insts (block_insts block) f") auto
    with a False have e: "r = None" "f' = f2" "block' = block\<lparr>block_insts := is2\<rparr>"
      by (simp_all add: assignIDs_def)
    from assign_insts_result [OF b] e False show ?thesis
      by (simp add: entity_names_def clear_names_def count_unnamed_def)
  qed
qed

lemma AssignIDs_loop_result:
  "AssignIDs_loop Err assignIDs blocks f = (r, blocks', f') \<Longrightarrow>
   r = None \<and>
   f' = f\<lparr>func_localID := func_localID f + of_nat (count_unnamed (body_names blocks))\<rparr> \<and>
   body_names blocks' = number (func_localID f) (body_names blocks) \<and>
   map clear_names blocks' = map clear_names blocks \<and>
   map block_parent blocks' = map block_parent blocks"
proof (induction blocks arbitrary: f r blocks' f')
  case Nil
  then show ?case by (simp add: body_names_def count_unnamed_def)
next
  case (Cons b bs)
  obtain r1 b1 f1 where a: "(assignIDs b f :: 'a option \<times> BasicBlock \<times> Function) = (r1, b1, f1)"
    by (cases "assignIDs b f :: 'a option \<times> BasicBlock \<times> Function") auto
  note ra = assignIDs_result [OF a]
  obtain r2 bs2 f2 where l: "AssignIDs_loop Err assignIDs bs f1 = (r2, bs2, f2)"
    by (cases "AssignIDs_loop Err assignIDs bs f1") auto
  note ih = Cons.IH [OF l]
  from Cons.prems a l ra have e: "r = r2" "blocks' = b1 # bs2" "f' = f2"
    by simp_all
  from ra ih e show ?case
    by (simp add: body_names_def number_append add.assoc)
qed

lemma length_number [simp]: "length (number c names) = length names"
  by (induction names arbitrary: c) simp_all

lemma number_named:
  "j < length names \<Longrightarrow> names ! j \<noteq> [] \<Longrightarrow> number c names ! j = names ! j"
  by (induction names arbitrary: c j) (auto simp: nth_Cons split: nat.splits)

lemma number_unnamed:
  "map snd (filter (\<lambda>(old, new). old = []) (zip names (number c names))) =
     map (\<lambda>i. Itoa (sint (c + of_nat i))) [0..<count_unnamed names]"
proof (induction names arbitrary: c)
  case Nil
  then show ?case by (simp add: count_unnamed_def)
next
  case (Cons n ns)
  show ?case
  proof (cases "n = []")
    case True
    have "[0..<Suc (count_unnamed ns)] = 0 # map Suc [0..<count_unnamed ns]"
      by (simp add: upt_conv_Cons map_Suc_upt del: upt_Suc)
    with True Cons [of "c + 1"] show ?thesis
      by (simp add: count_unnamed_def comp_def add.assoc del: upt_Suc)
  next
    case False
    with Cons [of c] show ?thesis
      by (simp add: count_unnamed_def)
  qed
qed

lemma sint_of_nat_64: "i < 2 ^ 63 \<Longrightarrow> sint (of_nat i :: 64 word) = int i"
proof -
  assume "i < 2 ^ 63"
  then have "int i < 2 ^ 63"
    by (metis of_nat_less_iff of_nat_numeral of_nat_power)
  then have "signed_take_bit 63 (int i) = int i"
    by (intro signed_take_bit_int_eq_self) simp_all
  then show ?thesis
    by (simp add: signed_of_nat)
qed

lemma number_from_zero:
  assumes "count_unnamed names \<le> 2 ^ 63"
  shows "numbered_from_zero names (number 0 names)"
proof -
  have "map (\<lambda>i. Itoa (sint (0 + of_nat i :: 64 word))) [0..<count_unnamed names] =
        map (\<lambda>i. Itoa (int i)) [0..<count_unnamed names]"
    using assms by (intro map_cong refl) (simp add: sint_of_nat_64)
  then show ?thesis
    unfolding numbered_from_zero_def
    by (simp add: number_named number_unnamed del: upt_Suc)
qed

text \<open>
  C4. On a freshly constructed function, \<open>SetBlocks\<close> with the pass of the spec over
  each block succeeds, and so does \<open>AssignIDs\<close> on a function whose counter is 0:
  the body afterwards differs from the body given (each block with its parent set) in
  names only; in the order of the pass (block by block, the block's own name first,
  then its result-producing instructions) every entity that had a name keeps it, and
  the entities that had none get \<open>0, 1, 2, ...\<close> in that order; the counter ends at
  their number. The bound says that the body has no more unnamed entities than Go's
  \<^verbatim>\<open>int\<close> has non-negative values.
\<close>

theorem C4_identifier_assignment:
  assumes "count_unnamed (body_names blocks) \<le> 2 ^ 63"
  shows "(\<exists>blocks'.
            SetBlocks Err assignIDs this (NewFunction name sig) (Some blocks) =
              (None, (NewFunction name sig)
                 \<lparr>func_blocks := Some blocks',
                  func_localID := of_nat (count_unnamed (body_names blocks))\<rparr>) \<and>
            map clear_names blocks' =
              map clear_names (map (\<lambda>b. BasicBlock_SetParent b this) blocks) \<and>
            numbered_from_zero (body_names blocks) (body_names blocks'))
       \<and> (func_localID f = 0 \<and> func_blocks f = Some blocks \<longrightarrow>
            (\<exists>blocks'.
               AssignIDs Err assignIDs f =
                 (None, f\<lparr>func_blocks := Some blocks',
                          func_localID := of_nat (count_unnamed (body_names blocks))\<rparr>) \<and>
               map clear_names blocks' = map clear_names blocks \<and>
               numbered_from_zero (body_names blocks) (body_names blocks')))"
proof -
  have assign: "\<exists>blocks'.
               AssignIDs Err assignIDs g =
                 (None, g\<lparr>func_blocks := Some blocks',
                          func_localID := of_nat (count_unnamed (body_names bs))\<rparr>) \<and>
               map clear_names blocks' = map clear_names bs \<and>
               numbered_from_zero (body_names bs) (body_names blocks')"
    if g: "func_localID g = 0" "func_blocks g = Some bs"
      and c: "count_unnamed (body_names bs) \<le> 2 ^ 63" for g bs
  proof -
    obtain r bs' g' where l: "AssignIDs_loop Err assignIDs bs g = (r, bs', g')"
      by (cases "AssignIDs_loop Err assignIDs bs g") auto
    from AssignIDs_loop_result [OF l] g l number_from_zero [OF c] show ?thesis
      by (intro exI [of _ bs']) (simp add: AssignIDs_def)
  qed
  have "entity_names (BasicBlock_SetParent b this) = entity_names b" for b
    by (simp add: entity_names_def BasicBlock_SetParent_def)
  then have names:
    "body_names (map (\<lambda>b. BasicBlock_SetParent b this) blocks) = body_names blocks"
    by (simp add: body_names_def comp_def)
  let ?f1 = "(NewFunction name sig)
      \<lparr>func_blocks := Some (map (\<lambda>b. BasicBlock_SetParent b this) blocks)\<rparr>"
  have "func_localID ?f1 = 0"
    "func_blocks ?f1 = Some (map (\<lambda>b. BasicBlock_SetParent b this) blocks)"
    by (simp_all add: NewFunction_def)
  from assign [OF this] assms obtain blocks' where
    b: "AssignIDs Err assignIDs ?f1 =
         (None, ?f1\<lparr>func_blocks := Some blocks',
                    func_localID := of_nat (count_unnamed (body_names blocks))\<rparr>)"
       "map clear_names blocks' =
          map clear_names (map (\<lambda>b. BasicBlock_SetParent b this) blocks)"
       "numbered_from_zero (body_names blocks) (body_names blocks')"
    unfolding names by blast
  have "SetBlocks Err assignIDs this (NewFunction name sig) (Some blocks) =
              (None, (NewFunction name sig)
                 \<lparr>func_blocks := Some blocks',
                  func_localID := of_nat (count_unnamed (body_names blocks))\<rparr>)"
    using b(1) by (simp add: SetBlocks_def)
  with b(2,3) have first: "\<exists>blocks'.
            SetBlocks Err assignIDs this (NewFunction name sig) (Some blocks) =
              (None, (NewFunction name sig)
                 \<lparr>func_blocks := Some blocks',
                  func_localID := of_nat (count_unnamed (body_names blocks))\<rparr>) \<and>
            map clear_names blocks' =
              map clear_names (map (\<lambda>b. BasicBlock_SetParent b this) blocks) \<and>
            numbered_from_zero (body_names blocks) (body_names blocks')"
    by blast
  from first assign [of f blocks] assms show ?thesis
    by blast
qed

theorem C4_identifier_assignment_witness:
  "count_unnamed (body_names sample_body) \<le> 2 ^ 63
   \<and> fst (SetBlocks errutil_Err assignIDs 1 (NewFunction ''f'' void_sig) (Some sample_body)) =
       None
   \<and> func_localID
        (snd (SetBlocks errutil_Err assignIDs 1 (NewFunction ''f'' void_sig)
           (Some sample_body))) = 3
   \<and> body_names sample_body = [[], [], ''named'', [], ''entry'']
   \<and> map_option body_names
        (func_blocks (snd (SetBlocks errutil_Err assignIDs 1 (NewFunction ''f'' void_sig)
           (Some sample_body)))) =
       Some [''0'', ''1'', ''named'', ''2'', ''entry'']"
proof -
  have n: "body_names sample_body = [[], [], ''named'', [], ''entry'']"
    by (simp add: sample_body_def body_names_def entity_names_def inst_names_def
          List.map_filter_simps NewAlloca_def)
  then have c: "count_unnamed (body_names sample_body) = 3"
    by (simp add: count_unnamed_def)
  then have h: "count_unnamed (body_names sample_body) \<le> 2 ^ 63"
    by simp
  from C4_identifier_assignment [OF h, of errutil_Err 1 "''f''" void_sig]
  obtain blocks' where
    "SetBlocks errutil_Err assignIDs 1 (NewFunction ''f'' void_sig) (Some sample_body) =
       (None, (NewFunction ''f'' void_sig)
          \<lparr>func_blocks := Some blocks',
           func_localID := of_nat (count_unnamed (body_names sample_body))\<rparr>)"
    by blast
  then have a: "fst (SetBlocks errutil_Err assignIDs 1 (NewFunction ''f'' void_sig)
        (Some sample_body)) = None"
    and b: "func_localID
        (snd (SetBlocks errutil_Err assignIDs 1 (NewFunction ''f'' void_sig)
           (Some sample_body))) = 3"
    by (simp_all add: c)
  have d: "map_option body_names
     (func_blocks (snd (SetBlocks errutil_Err assignIDs 1 (NewFunction ''f'' void_sig)
        (Some sample_body)))) =
   Some [''0'', ''1'', ''named'', ''2'', ''entry'']"
    by (simp add: SetBlocks_def AssignIDs_def sample_body_def assignIDs_def assign_inst_def
        nextID_def Itoa_def digit_def NewFunction_def BasicBlock_SetParent_def
        body_names_def entity_names_def inst_names_def List.map_filter_simps
        NewAlloca_def InstLoad_SetName_def)
  from h a b n d show ?thesis by simp
qed

subsection \<open>C10: the counter of a function\<close>

















section \<open>Properties of the half-precision codec\<close>

lemmas codec_defs = widen_def ieee_sign_def ieee_exp_def ieee_mant_def ieee_pack_def ieee_bias_def

lemma ieee_unpack:
  assumes "e < 2 ^ eb" "m < 2 ^ mb"
  shows "ieee_sign eb mb (ieee_pack eb mb s e m) = s"
    and "ieee_exp eb mb (ieee_pack eb mb s e m) = e"
    and "ieee_mant eb mb (ieee_pack eb mb s e m) = m"
proof -
  have p: "ieee_pack eb mb s e m = (s * 2 ^ eb + e) * 2 ^ mb + m"
    by (simp add: ieee_pack_def power_add algebra_simps)
  have d: "ieee_pack eb mb s e m div 2 ^ mb = s * 2 ^ eb + e"
    unfolding p using assms(2) by simp
  show "ieee_mant eb mb (ieee_pack eb mb s e m) = m"
    unfolding ieee_mant_def p using assms(2) by simp
  show "ieee_exp eb mb (ieee_pack eb mb s e m) = e"
    unfolding ieee_exp_def d using assms(1) by simp
  have "(2::nat) ^ (eb + mb) = 2 ^ mb * 2 ^ eb"
    by (simp add: power_add)
  then have "ieee_pack eb mb s e m div 2 ^ (eb + mb) =
      (ieee_pack eb mb s e m div 2 ^ mb) div 2 ^ eb"
    by (simp only: div_mult2_eq)
  then show "ieee_sign eb mb (ieee_pack eb mb s e m) = s"
    unfolding ieee_sign_def d using assms(1) by simp
qed

lemma ieee_pack_less:
  assumes "s < 2" "e < 2 ^ eb" "m < 2 ^ mb"
  shows "ieee_pack eb mb s e m < 2 ^ (1 + eb + mb)"
proof -
  have "e * 2 ^ mb + m < (e + 1) * 2 ^ mb"
    using assms(3) by simp
  also have "\<dots> \<le> 2 ^ eb * 2 ^ mb"
    using assms(2) by (intro mult_right_mono) simp_all
  finally have a: "e * 2 ^ mb + m < 2 ^ (eb + mb)"
    by (simp add: power_add)
  have "s = 0 \<or> s = 1"
    using assms(1) by auto
  with a show ?thesis
    by (auto simp: ieee_pack_def)
qed

lemma half_fields:
  assumes "h < 2 ^ 16"
  shows "ieee_sign 5 10 h < 2" "ieee_exp 5 10 h < 32" "ieee_mant 5 10 h < 1024"
  using assms by (simp_all add: ieee_sign_def ieee_exp_def ieee_mant_def less_mult_imp_div_less)

lemma normalize_result:
  "0 < m \<Longrightarrow> m < 1024 \<Longrightarrow> normalize_mant m k = (m', k') \<Longrightarrow>
   \<exists>j. k' = k + j \<and> m' = m * 2 ^ j \<and> 1024 \<le> m' \<and> m' < 2048"
proof (induction m k rule: normalize_mant.induct)
  case (1 m k)
  show ?case
  proof (cases "1024 \<le> 2 * m")
    case True
    with "1.prems" have "m' = 2 * m" "k' = Suc k"
      by (simp_all add: normalize_mant.simps [of m] normalize_mant.simps [of "2 * m"])
    with True "1.prems" have "k' = k + 1 \<and> m' = m * 2 ^ 1 \<and> 1024 \<le> m' \<and> m' < 2048"
      by simp
    then show ?thesis by blast
  next
    case False
    with "1.prems" have n: "normalize_mant (2 * m) (Suc k) = (m', k')"
      by (simp add: normalize_mant.simps [of m])
    from "1.prems" False have "\<not> (m = 0 \<or> 1024 \<le> m)" "0 < 2 * m" "2 * m < 1024"
      by simp_all
    from "1.IH" [OF this n] obtain j where
      "k' = Suc k + j" "m' = 2 * m * 2 ^ j" "1024 \<le> m'" "m' < 2048"
      by blast
    then have "k' = k + Suc j \<and> m' = m * 2 ^ Suc j \<and> 1024 \<le> m' \<and> m' < 2048"
      by simp
    then show ?thesis by blast
  qed
qed

lemma normalize_shift_le:
  assumes "0 < m" "m * 2 ^ j < (2048::nat)"
  shows "j \<le> 10"
proof (rule ccontr)
  assume "\<not> j \<le> 10"
  then have "11 \<le> j" by simp
  then have "(2::nat) ^ 11 \<le> 2 ^ j"
    by (intro power_increasing) simp_all
  also have "\<dots> \<le> m * 2 ^ j"
    using assms(1) by simp
  finally show False
    using assms(2) by simp
qed

lemma ieee_value_pack:
  assumes "e < 2 ^ eb" "m < 2 ^ mb"
  shows "ieee_value eb mb (ieee_pack eb mb s e m) =
     (if s = 0 then 1 else - 1) *
     (if e = 0 then real (2 * m) else real ((2 ^ mb + m) * 2 ^ e)) /
     real (2 ^ (ieee_bias eb + mb))"
  using assms by (simp add: ieee_value_def ieee_unpack)

lemma pow_split: "10 \<le> mb \<Longrightarrow> (2::nat) ^ 10 * 2 ^ (mb - 10) = 2 ^ mb"
  by (metis le_add_diff_inverse power_add)

lemma shifted_mant_less:
  assumes "10 \<le> mb" "m < 1024"
  shows "m * 2 ^ (mb - 10) < (2::nat) ^ mb"
proof -
  have "m * 2 ^ (mb - 10) < 2 ^ 10 * (2::nat) ^ (mb - 10)"
    using assms(2) by (intro mult_strict_right_mono) simp_all
  then show ?thesis
    by (simp only: pow_split [OF assms(1)])
qed

lemma rebias:
  "(2 ^ (t + d) + m * 2 ^ d) * 2 ^ (e + c) * 2 ^ (t + 15) =
   (2 ^ t + m) * 2 ^ e * (2::nat) ^ (15 + c + (t + d))"
  by (simp add: power_add algebra_simps)

lemma real_frac_eq:
  assumes "a * d = c * (b::nat)" "0 < b" "0 < d"
  shows "real a / real b = real c / real d"
proof -
  have "real a * real d = real c * real b"
    using assms(1) by (metis of_nat_mult)
  then show ?thesis
    using assms(2,3) by (simp add: frac_eq_eq)
qed

lemma widen_normal:
  assumes mb: "10 \<le> mb" and b: "25 \<le> ieee_bias eb" "ieee_bias eb + 16 < 2 ^ eb"
    and e: "0 < e" "e < 31" and m: "m < 1024"
  shows "ieee_value eb mb (ieee_pack eb mb s (e + ieee_bias eb - 15) (m * 2 ^ (mb - 10))) =
     (if s = 0 then 1 else - 1) * real ((2 ^ 10 + m) * 2 ^ e) / real (2 ^ 25)"
    and "e + ieee_bias eb - 15 < 2 ^ eb - 1"
proof -
  have "\<exists>c. ieee_bias eb = 15 + c"
    using b(1) by presburger
  then obtain c where c: "ieee_bias eb = 15 + c"
    by blast
  obtain d where d: "mb = 10 + d"
    using mb by (metis le_Suc_ex)
  show lt: "e + ieee_bias eb - 15 < 2 ^ eb - 1"
    using b e by simp
  have e0: "e + ieee_bias eb - 15 \<noteq> 0"
    using b e by simp
  have "(2 ^ (10 + d) + m * 2 ^ d) * 2 ^ (e + c) * 2 ^ (10 + 15) =
      (2 ^ 10 + m) * 2 ^ e * (2::nat) ^ (15 + c + (10 + d))"
    by (rule rebias)
  then have nat_eq: "(2 ^ mb + m * 2 ^ (mb - 10)) * 2 ^ (e + ieee_bias eb - 15) * 2 ^ 25 =
      (2 ^ 10 + m) * 2 ^ e * (2::nat) ^ (ieee_bias eb + mb)"
    by (simp add: c d)
  have q: "real ((2 ^ mb + m * 2 ^ (mb - 10)) * 2 ^ (e + ieee_bias eb - 15)) /
          real (2 ^ (ieee_bias eb + mb)) =
        real ((2 ^ 10 + m) * 2 ^ e) / real (2 ^ 25)"
    by (rule real_frac_eq [OF nat_eq]) simp_all
  have lt': "e + ieee_bias eb - 15 < 2 ^ eb"
    using lt by simp
  let ?sg = "if s = 0 then 1 else - 1 :: real"
  have "ieee_value eb mb (ieee_pack eb mb s (e + ieee_bias eb - 15) (m * 2 ^ (mb - 10))) =
      ?sg * (real ((2 ^ mb + m * 2 ^ (mb - 10)) * 2 ^ (e + ieee_bias eb - 15)) /
          real (2 ^ (ieee_bias eb + mb)))"
    by (subst ieee_value_pack [OF lt' shifted_mant_less [OF mb m]]) (use e0 in simp)
  also have "\<dots> = ?sg * (real ((2 ^ 10 + m) * 2 ^ e) / real (2 ^ 25))"
    by (simp only: q)
  finally show "ieee_value eb mb
      (ieee_pack eb mb s (e + ieee_bias eb - 15) (m * 2 ^ (mb - 10))) =
     (if s = 0 then 1 else - 1) * real ((2 ^ 10 + m) * 2 ^ e) / real (2 ^ 25)"
    by simp
qed

lemma unbias:
  "k \<le> c \<Longrightarrow> 2 ^ d * (m * 2 ^ k) * 2 ^ (c - k) * 2 ^ 25 =
     2 * m * (2::nat) ^ (24 + c + d)"
proof -
  assume "k \<le> c"
  then have p: "(2::nat) ^ k * 2 ^ (c - k) = 2 ^ c"
    by (simp flip: power_add)
  have "2 ^ d * (m * 2 ^ k) * 2 ^ (c - k) * 2 ^ 25 =
      2 ^ d * (m * ((2::nat) ^ k * 2 ^ (c - k))) * 2 ^ 25"
    by (simp only: mult.assoc)
  also have "\<dots> = 2 ^ d * (m * 2 ^ c) * 2 ^ 25"
    by (simp only: p)
  also have "\<dots> = 2 * m * 2 ^ (24 + c + d)"
    by (simp add: power_add)
  finally show ?thesis .
qed

lemma widen_subnormal:
  assumes mb: "10 \<le> mb" and b: "25 \<le> ieee_bias eb" "ieee_bias eb + 16 < 2 ^ eb"
    and m: "0 < m" "m < 1024" and n: "normalize_mant m 0 = (m', k)"
  shows "ieee_value eb mb
      (ieee_pack eb mb s (ieee_bias eb - 14 - k) ((m' mod 1024) * 2 ^ (mb - 10))) =
     (if s = 0 then 1 else - 1) * real (2 * m) / real (2 ^ 25)"
    and "ieee_bias eb - 14 - k < 2 ^ eb - 1"
    and "(m' mod 1024) * 2 ^ (mb - 10) < 2 ^ mb"
proof -
  from normalize_result [OF m n] obtain j where
    j: "k = 0 + j" "m' = m * 2 ^ j" "1024 \<le> m'" "m' < 2048"
    by blast
  then have k: "m' = m * 2 ^ k" "k \<le> 10"
    using normalize_shift_le [of m j] m(1) by simp_all
  have md: "m' mod 1024 = m' - 1024"
    using j(3,4) by (simp add: mod_if)
  have "\<exists>c. ieee_bias eb = 24 + c"
    using b(1) by presburger
  then obtain c where c: "ieee_bias eb = 24 + c"
    by blast
  obtain d where d: "mb = 10 + d"
    using mb by (metis le_Suc_ex)
  show lt: "ieee_bias eb - 14 - k < 2 ^ eb - 1"
    using b by simp
  have e0: "ieee_bias eb - 14 - k \<noteq> 0"
    using b k(2) by simp
  show sm: "(m' mod 1024) * 2 ^ (mb - 10) < 2 ^ mb"
    by (rule shifted_mant_less [OF mb]) simp
  have "2 ^ mb + (m' - 1024) * 2 ^ (mb - 10) = 2 ^ d * m'"
    using j(3) by (simp add: d power_add algebra_simps)
  then have "2 ^ mb + (m' mod 1024) * 2 ^ (mb - 10) = 2 ^ d * m'"
    by (simp only: md)
  then have mant: "2 ^ mb + (m' mod 1024) * 2 ^ (mb - 10) = 2 ^ d * (m * 2 ^ k)"
    by (simp only: k(1))
  have kc: "k \<le> 10 + c"
    using k(2) by simp
  have ex: "ieee_bias eb - 14 - k = 10 + c - k"
    by (simp add: c)
  have nat_eq: "(2 ^ mb + (m' mod 1024) * 2 ^ (mb - 10)) * 2 ^ (ieee_bias eb - 14 - k) * 2 ^ 25 =
      2 * m * (2::nat) ^ (ieee_bias eb + mb)"
    unfolding mant ex using unbias [OF kc, of d m] by (simp add: c d add.assoc)
  have q: "real ((2 ^ mb + (m' mod 1024) * 2 ^ (mb - 10)) * 2 ^ (ieee_bias eb - 14 - k)) /
          real (2 ^ (ieee_bias eb + mb)) =
        real (2 * m) / real (2 ^ 25)"
    by (rule real_frac_eq [OF nat_eq]) simp_all
  have lt': "ieee_bias eb - 14 - k < 2 ^ eb"
    using lt by simp
  let ?sg = "if s = 0 then 1 else - 1 :: real"
  have "ieee_value eb mb
      (ieee_pack eb mb s (ieee_bias eb - 14 - k) ((m' mod 1024) * 2 ^ (mb - 10))) =
      ?sg * (real ((2 ^ mb + (m' mod 1024) * 2 ^ (mb - 10)) * 2 ^ (ieee_bias eb - 14 - k)) /
          real (2 ^ (ieee_bias eb + mb)))"
    by (subst ieee_value_pack [OF lt' sm]) (use e0 in simp)
  also have "\<dots> = ?sg * (real (2 * m) / real (2 ^ 25))"
    by (simp only: q)
  finally show "ieee_value eb mb
      (ieee_pack eb mb s (ieee_bias eb - 14 - k) ((m' mod 1024) * 2 ^ (mb - 10))) =
     (if s = 0 then 1 else - 1) * real (2 * m) / real (2 ^ 25)"
    by simp
qed

lemma widen_cases:
  "widen eb mb h =
     (if ieee_exp 5 10 h = 31
      then ieee_pack eb mb (ieee_sign 5 10 h) (2 ^ eb - 1) (ieee_mant 5 10 h * 2 ^ (mb - 10))
      else if ieee_exp 5 10 h = 0
      then (if ieee_mant 5 10 h = 0 then ieee_pack eb mb (ieee_sign 5 10 h) 0 0
            else ieee_pack eb mb (ieee_sign 5 10 h)
                   (ieee_bias eb - 14 - snd (normalize_mant (ieee_mant 5 10 h) 0))
                   ((fst (normalize_mant (ieee_mant 5 10 h) 0) mod 1024) * 2 ^ (mb - 10)))
      else ieee_pack eb mb (ieee_sign 5 10 h) (ieee_exp 5 10 h + ieee_bias eb - 15)
             (ieee_mant 5 10 h * 2 ^ (mb - 10)))"
  by (simp add: widen_def Let_def split: prod.splits)

lemma half_value:
  "ieee_value 5 10 h =
     (if ieee_sign 5 10 h = 0 then 1 else - 1) *
     (if ieee_exp 5 10 h = 0 then real (2 * ieee_mant 5 10 h)
      else real ((2 ^ 10 + ieee_mant 5 10 h) * 2 ^ ieee_exp 5 10 h)) / real (2 ^ 25)"
  by (simp add: ieee_value_def ieee_bias_def)

lemma widen_fields:
  assumes mb: "10 \<le> mb" and b: "25 \<le> ieee_bias eb" "ieee_bias eb + 16 < 2 ^ eb"
    and h: "h < 2 ^ 16"
  shows "widen eb mb h < 2 ^ (1 + eb + mb)"
    and "ieee_sign eb mb (widen eb mb h) = ieee_sign 5 10 h"
    and "ieee_finite eb mb (widen eb mb h) \<longleftrightarrow> ieee_finite 5 10 h"
    and "ieee_finite 5 10 h \<Longrightarrow> ieee_value eb mb (widen eb mb h) = ieee_value 5 10 h"
    and "\<not> ieee_finite 5 10 h \<Longrightarrow>
           ieee_mant eb mb (widen eb mb h) = ieee_mant 5 10 h * 2 ^ (mb - 10)"
proof -
  let ?s = "ieee_sign 5 10 h" and ?e = "ieee_exp 5 10 h" and ?m = "ieee_mant 5 10 h"
  note f = half_fields [OF h]
  have top: "2 ^ eb - 1 < (2::nat) ^ eb"
    by simp
  have sm: "?m * 2 ^ (mb - 10) < 2 ^ mb"
    by (rule shifted_mant_less [OF mb f(3)])
  have fin16: "ieee_finite 5 10 h \<longleftrightarrow> ?e \<noteq> 31"
    by (simp add: ieee_finite_def)
  consider (inf) "?e = 31" | (zero) "?e = 0" "?m = 0" | (sub) "?e = 0" "0 < ?m"
    | (normal) "0 < ?e" "?e < 31"
    using f(2) by linarith
  then have "widen eb mb h < 2 ^ (1 + eb + mb) \<and>
    ieee_sign eb mb (widen eb mb h) = ?s \<and>
    (ieee_finite eb mb (widen eb mb h) \<longleftrightarrow> ieee_finite 5 10 h) \<and>
    (ieee_finite 5 10 h \<longrightarrow> ieee_value eb mb (widen eb mb h) = ieee_value 5 10 h) \<and>
    (\<not> ieee_finite 5 10 h \<longrightarrow> ieee_mant eb mb (widen eb mb h) = ?m * 2 ^ (mb - 10))"
  proof cases
    case inf
    then have w: "widen eb mb h = ieee_pack eb mb ?s (2 ^ eb - 1) (?m * 2 ^ (mb - 10))"
      by (simp add: widen_cases)
    show ?thesis
      unfolding w fin16
      using inf ieee_unpack [OF top sm, of ?s] ieee_pack_less [OF f(1) top sm]
      by (simp add: ieee_finite_def)
  next
    case zero
    then have w: "widen eb mb h = ieee_pack eb mb ?s 0 0"
      by (simp add: widen_cases)
    have z: "(0::nat) < 2 ^ eb" "(0::nat) < 2 ^ mb"
      by simp_all
    have e0: "(0::nat) \<noteq> 2 ^ eb - 1"
      using b by simp
    have v: "ieee_value eb mb (ieee_pack eb mb ?s 0 0) = ieee_value 5 10 h"
      using zero by (simp add: ieee_value_pack [OF z] half_value)
    show ?thesis
      unfolding w fin16
      using zero ieee_unpack [OF z, of ?s] ieee_pack_less [OF f(1) z] e0 v
      by (simp add: ieee_finite_def)
  next
    case sub
    obtain m' k where n: "normalize_mant ?m 0 = (m', k)"
      by (cases "normalize_mant ?m 0") auto
    with sub have w: "widen eb mb h =
        ieee_pack eb mb ?s (ieee_bias eb - 14 - k) ((m' mod 1024) * 2 ^ (mb - 10))"
      by (simp add: widen_cases)
    note r = widen_subnormal [OF mb b sub(2) f(3) n]
    have lt: "ieee_bias eb - 14 - k < 2 ^ eb"
      using r(2) by simp
    have ne: "ieee_bias eb - 14 - k \<noteq> 2 ^ eb - 1"
      using r(2) by simp
    have v: "ieee_value eb mb
        (ieee_pack eb mb ?s (ieee_bias eb - 14 - k) ((m' mod 1024) * 2 ^ (mb - 10))) =
        ieee_value 5 10 h"
      using sub by (simp only: r(1) half_value) simp
    show ?thesis
      unfolding w fin16
      using sub ieee_unpack [OF lt r(3), of ?s] ieee_pack_less [OF f(1) lt r(3)] ne v
      by (simp add: ieee_finite_def)
  next
    case normal
    then have w: "widen eb mb h =
        ieee_pack eb mb ?s (?e + ieee_bias eb - 15) (?m * 2 ^ (mb - 10))"
      by (simp add: widen_cases)
    note r = widen_normal [OF mb b normal f(3)]
    have lt: "?e + ieee_bias eb - 15 < 2 ^ eb"
      using r(2) by simp
    have ne: "?e + ieee_bias eb - 15 \<noteq> 2 ^ eb - 1"
      using r(2) by simp
    have v: "ieee_value eb mb
        (ieee_pack eb mb ?s (?e + ieee_bias eb - 15) (?m * 2 ^ (mb - 10))) =
        ieee_value 5 10 h"
      using normal by (simp only: r(1) half_value) simp
    show ?thesis
      unfolding w fin16
      using normal ieee_unpack [OF lt sm, of ?s] ieee_pack_less [OF f(1) lt sm] ne v
      by (simp add: ieee_finite_def)
  qed
  then show "widen eb mb h < 2 ^ (1 + eb + mb)"
    and "ieee_sign eb mb (widen eb mb h) = ieee_sign 5 10 h"
    and "ieee_finite eb mb (widen eb mb h) \<longleftrightarrow> ieee_finite 5 10 h"
    and "ieee_finite 5 10 h \<Longrightarrow> ieee_value eb mb (widen eb mb h) = ieee_value 5 10 h"
    and "\<not> ieee_finite 5 10 h \<Longrightarrow>
           ieee_mant eb mb (widen eb mb h) = ieee_mant 5 10 h * 2 ^ (mb - 10)"
    by blast+
qed

lemma unat_Float32: "unat (Float32 h) = widen 8 23 (unat h)"
proof -
  have "unat h < 2 ^ 16"
    using unsigned_less [of h] by simp
  then have "widen 8 23 (unat h) < 2 ^ (1 + 8 + 23)"
    by (intro widen_fields(1)) (simp_all add: ieee_bias_def)
  then show ?thesis
    by (simp add: Float32_def unat_of_nat)
qed

lemma unat_Float64: "unat (Float64 h) = widen 11 52 (unat h)"
proof -
  have "unat h < 2 ^ 16"
    using unsigned_less [of h] by simp
  then have "widen 11 52 (unat h) < 2 ^ (1 + 11 + 52)"
    by (intro widen_fields(1)) (simp_all add: ieee_bias_def)
  then show ?thesis
    by (simp add: Float64_def unat_of_nat)
qed

lemma golden_Float32:
  "Float32 (NewFloat16FromBits 0x3C00) = 0x3F800000"
  "Float32 (NewFloat16FromBits 0x4000) = 0x40000000"
  "Float32 (NewFloat16FromBits 0xC000) = 0xC0000000"
  "Float32 (NewFloat16FromBits 0x7BFE) = 0x477FC000"
  "Float32 (NewFloat16FromBits 0x7BFF) = 0x477FE000"
  "Float32 (NewFloat16FromBits 0xFBFF) = 0xC77FE000"
  "Float32 (NewFloat16FromBits 0x0000) = 0x00000000"
  "Float32 (NewFloat16FromBits 0x8000) = 0x80000000"
  "Float32 (NewFloat16FromBits 0x7C00) = 0x7F800000"
  "Float32 (NewFloat16FromBits 0xFC00) = 0xFF800000"
  "Float32 (NewFloat16FromBits 0x5B8F) = 0x4371E000"
  "Float32 (NewFloat16FromBits 0x48C8) = 0x41190000"
  by (simp_all add: Float32_def NewFloat16FromBits_def codec_defs)

lemma golden_Float64:
  "Float64 (NewFloat16FromBits 0x3C00) = 0x3FF0000000000000"
  "Float64 (NewFloat16FromBits 0x4000) = 0x4000000000000000"
  "Float64 (NewFloat16FromBits 0xC000) = 0xC000000000000000"
  "Float64 (NewFloat16FromBits 0x7BFE) = 0x40EFF80000000000"
  "Float64 (NewFloat16FromBits 0x7BFF) = 0x40EFFC0000000000"
  "Float64 (NewFloat16FromBits 0xFBFF) = 0xC0EFFC0000000000"
  "Float64 (NewFloat16FromBits 0x0000) = 0x0000000000000000"
  "Float64 (NewFloat16FromBits 0x8000) = 0x8000000000000000"
  "Float64 (NewFloat16FromBits 0x7C00) = 0x7FF0000000000000"
  "Float64 (NewFloat16FromBits 0xFC00) = 0xFFF0000000000000"
  "Float64 (NewFloat16FromBits 0x5B8F) = 0x406E3C0000000000"
  "Float64 (NewFloat16FromBits 0x48C8) = 0x4023200000000000"
  by (simp_all add: Float64_def NewFloat16FromBits_def codec_defs)

lemma golden_values32:
  "float32_value 0x3F800000 = 1"
  "float32_value 0x40000000 = 2"
  "float32_value 0xC0000000 = - 2"
  "float32_value 0x477FC000 = 65472"
  "float32_value 0x477FE000 = 65504"
  "float32_value 0xC77FE000 = - 65504"
  "float32_value 0x4371E000 = 241.875"
  "float32_value 0x41190000 = 9.5625"
  by (simp_all add: float32_value_def ieee_value_def codec_defs)

lemma golden_values64:
  "float64_value 0x3FF0000000000000 = 1"
  "float64_value 0x4000000000000000 = 2"
  "float64_value 0xC000000000000000 = - 2"
  "float64_value 0x40EFF80000000000 = 65472"
  "float64_value 0x40EFFC0000000000 = 65504"
  "float64_value 0xC0EFFC0000000000 = - 65504"
  "float64_value 0x406E3C0000000000 = 241.875"
  "float64_value 0x4023200000000000 = 9.5625"
  by (simp_all add: float64_value_def ieee_value_def codec_defs)

lemma Float_finite_iff:
  "float32_finite (Float32 h) \<longleftrightarrow> float16_finite h"
  "float64_finite (Float64 h) \<longleftrightarrow> float16_finite h"
proof -
  have h: "unat h < 2 ^ 16"
    using unsigned_less [of h] by simp
  show "float32_finite (Float32 h) \<longleftrightarrow> float16_finite h"
    unfolding float32_finite_def float16_finite_def unat_Float32
    by (rule widen_fields(3) [OF _ _ _ h]) (simp_all add: ieee_bias_def)
  show "float64_finite (Float64 h) \<longleftrightarrow> float16_finite h"
    unfolding float64_finite_def float16_finite_def unat_Float64
    by (rule widen_fields(3) [OF _ _ _ h]) (simp_all add: ieee_bias_def)
qed

lemma Float_value:
  assumes "float16_finite h"
  shows "float32_value (Float32 h) = float16_value h"
    and "float64_value (Float64 h) = float16_value h"
proof -
  have h: "unat h < 2 ^ 16"
    using unsigned_less [of h] by simp
  have f: "ieee_finite 5 10 (unat h)"
    using assms by (simp add: float16_finite_def)
  show "float32_value (Float32 h) = float16_value h"
    unfolding float32_value_def float16_value_def unat_Float32
    by (rule widen_fields(4) [OF _ _ _ h f]) (simp_all add: ieee_bias_def)
  show "float64_value (Float64 h) = float16_value h"
    unfolding float64_value_def float16_value_def unat_Float64
    by (rule widen_fields(4) [OF _ _ _ h f]) (simp_all add: ieee_bias_def)
qed

lemma Float_sign:
  "ieee_sign 8 23 (unat (Float32 h)) = ieee_sign 5 10 (unat h)"
  "ieee_sign 11 52 (unat (Float64 h)) = ieee_sign 5 10 (unat h)"
proof -
  have h: "unat h < 2 ^ 16"
    using unsigned_less [of h] by simp
  show "ieee_sign 8 23 (unat (Float32 h)) = ieee_sign 5 10 (unat h)"
    unfolding unat_Float32
    by (rule widen_fields(2) [OF _ _ _ h]) (simp_all add: ieee_bias_def)
  show "ieee_sign 11 52 (unat (Float64 h)) = ieee_sign 5 10 (unat h)"
    unfolding unat_Float64
    by (rule widen_fields(2) [OF _ _ _ h]) (simp_all add: ieee_bias_def)
qed

text \<open>
  C6. The conversions are total functions from 16-bit patterns to 32-bit and 64-bit
  patterns (the loop that promotes a subnormal terminates). For every pattern: a
  finite pattern gives finite patterns of both widths whose values are equal to each
  other and to the value of the half-precision pattern; an infinity or NaN gives a
  pattern of the same class; the sign bit is kept. The golden patterns give the
  patterns of 1, -2, 65504, negative zero (sign bit alone), the two infinities
  (exponent field all ones, mantissa zero), 241.875 and 9.5625.
\<close>

theorem C6_half_precision_codec:
  "(float16_finite h \<longrightarrow>
      float32_finite (Float32 h) \<and> float64_finite (Float64 h) \<and>
      float32_value (Float32 h) = float64_value (Float64 h) \<and>
      float32_value (Float32 h) = float16_value h)
   \<and> (\<not> float16_finite h \<longrightarrow>
        \<not> float32_finite (Float32 h) \<and> \<not> float64_finite (Float64 h))
   \<and> ieee_sign 8 23 (unat (Float32 h)) = ieee_sign 5 10 (unat h)
   \<and> ieee_sign 11 52 (unat (Float64 h)) = ieee_sign 5 10 (unat h)
   \<and> Float32 (NewFloat16FromBits 0x3C00) = 0x3F800000 \<and> float32_value 0x3F800000 = 1
   \<and> Float32 (NewFloat16FromBits 0xC000) = 0xC0000000 \<and> float32_value 0xC0000000 = - 2
   \<and> Float32 (NewFloat16FromBits 0x7BFF) = 0x477FE000 \<and> float32_value 0x477FE000 = 65504
   \<and> Float32 (NewFloat16FromBits 0x8000) = 0x80000000
   \<and> Float32 (NewFloat16FromBits 0x7C00) = 0x7F800000
   \<and> Float32 (NewFloat16FromBits 0xFC00) = 0xFF800000
   \<and> Float32 (NewFloat16FromBits 0x5B8F) = 0x4371E000 \<and> float32_value 0x4371E000 = 241.875
   \<and> Float32 (NewFloat16FromBits 0x48C8) = 0x41190000 \<and> float32_value 0x41190000 = 9.5625
   \<and> Float64 (NewFloat16FromBits 0x3C00) = 0x3FF0000000000000
   \<and> float64_value 0x3FF0000000000000 = 1
   \<and> Float64 (NewFloat16FromBits 0xC000) = 0xC000000000000000
   \<and> float64_value 0xC000000000000000 = - 2
   \<and> Float64 (NewFloat16FromBits 0x7BFF) = 0x40EFFC0000000000
   \<and> float64_value 0x40EFFC0000000000 = 65504
   \<and> Float64 (NewFloat16FromBits 0x8000) = 0x8000000000000000
   \<and> Float64 (NewFloat16FromBits 0x7C00) = 0x7FF0000000000000
   \<and> Float64 (NewFloat16FromBits 0xFC00) = 0xFFF0000000000000
   \<and> Float64 (NewFloat16FromBits 0x5B8F) = 0x406E3C0000000000
   \<and> float64_value 0x406E3C0000000000 = 241.875
   \<and> Float64 (NewFloat16FromBits 0x48C8) = 0x4023200000000000
   \<and> float64_value 0x4023200000000000 = 9.5625"
proof -
  have fin: "float16_finite h \<longrightarrow>
      float32_finite (Float32 h) \<and> float64_finite (Float64 h) \<and>
      float32_value (Float32 h) = float64_value (Float64 h) \<and>
      float32_value (Float32 h) = float16_value h"
    by (simp add: Float_finite_iff Float_value)
  have inf: "\<not> float16_finite h \<longrightarrow>
        \<not> float32_finite (Float32 h) \<and> \<not> float64_finite (Float64 h)"
    by (simp add: Float_finite_iff)
  show ?thesis
    by (intro conjI fin inf Float_sign golden_Float32 golden_Float64 golden_values32
          golden_values64)
qed

theorem C6_half_precision_codec_witness:
  "float16_finite 0x0001
   \<and> float32_value (Float32 0x0001) = float64_value (Float64 0x0001)
   \<and> float32_value (Float32 0x0001) = 1 / 2 ^ 24
   \<and> \<not> float16_finite 0x7E00
   \<and> \<not> float32_finite (Float32 0x7E00)"
proof -
  have f: "float16_finite 0x0001" and n: "\<not> float16_finite 0x7E00"
    by (simp_all add: float16_finite_def ieee_finite_def ieee_exp_def)
  have v: "float16_value 0x0001 = 1 / 2 ^ 24"
    by (simp add: float16_value_def ieee_value_def codec_defs)
  from C6_half_precision_codec [of "0x0001"] f v
  have a: "float32_value (Float32 0x0001) = float64_value (Float64 0x0001)"
    and b: "float32_value (Float32 0x0001) = 1 / 2 ^ 24"
    by simp_all
  from C6_half_precision_codec [of "0x7E00"] n
  have c: "\<not> float32_finite (Float32 0x7E00)"
    by blast
  from f a b n c show ?thesis by simp
qed

end
